theory Spec2Isabelle
  imports Main "HOL-Library.Word"
begin

unbundle bit_operations_syntax

section \<open>Machine integers, bytes and strings\<close>

text \<open>
  Go's \<open>int64\<close> and \<open>int\<close> are 64-bit words read as two's complement (\<open>sint\<close>),
  \<open>uint32\<close> is a 32-bit word, a byte an 8-bit word. A Go \<open>string\<close> is a sequence of
  bytes, here a \<open>string\<close> (a list of \<open>char\<close>). A \<open>time.Time\<close> is an integer clock
  reading that the caller passes in where the source calls \<open>time.Now()\<close>.
\<close>

type_synonym i64 = "64 word"
type_synonym u64 = "64 word"
type_synonym u32 = "32 word"
type_synonym byte = "8 word"
type_synonym time = int

text \<open>\<open>int64(^uint64(0) >> 1)\<close>, the constant both key builders subtract from.\<close>

definition MaxInt64 :: i64 where
  "MaxInt64 = drop_bit 1 (NOT 0)"

text \<open>\<open>strconv.FormatInt(v, 10)\<close>: decimal digits, a leading minus sign, no padding.\<close>

function digits_of_int :: "int \<Rightarrow> string" where
  "digits_of_int n =
     (if n < 10 then [char_of (48 + n)]
      else digits_of_int (n div 10) @ [char_of (48 + n mod 10)])"
  by pat_completeness auto
termination
  by (relation "measure nat") auto

declare digits_of_int.simps [simp del]

definition FormatInt :: "i64 \<Rightarrow> string" where
  "FormatInt v =
     (if sint v < 0 then CHR ''-'' # digits_of_int (- sint v)
      else digits_of_int (sint v))"

text \<open>The \<open>strings\<close> package, on bytes.\<close>

definition HasPrefix :: "string \<Rightarrow> string \<Rightarrow> bool" where
  "HasPrefix s p = (take (length p) s = p)"

definition HasSuffix :: "string \<Rightarrow> string \<Rightarrow> bool" where
  "HasSuffix s x = (length x \<le> length s \<and> drop (length s - length x) s = x)"

definition TrimPrefix :: "string \<Rightarrow> string \<Rightarrow> string" where
  "TrimPrefix s p = (if HasPrefix s p then drop (length p) s else s)"

definition TrimSuffix :: "string \<Rightarrow> string \<Rightarrow> string" where
  "TrimSuffix s x = (if HasSuffix s x then take (length s - length x) s else s)"

fun Contains :: "string \<Rightarrow> string \<Rightarrow> bool" where
  "Contains [] sub = (sub = [])"
| "Contains (c # cs) sub = (HasPrefix (c # cs) sub \<or> Contains cs sub)"

text \<open>\<open>strings.ToLower\<close> on ASCII letters; bytes outside \<open>A-Z\<close> are kept.\<close>

definition lower_char :: "char \<Rightarrow> char" where
  "lower_char c =
     (if (65::nat) \<le> of_char c \<and> (of_char c :: nat) \<le> 90
      then char_of ((of_char c :: nat) + 32) else c)"

definition ToLower :: "string \<Rightarrow> string" where
  "ToLower s = map lower_char s"

text \<open>
  The part of a string after its last \<open>@\<close> (\<open>parts[len(parts)-1]\<close> of
  \<open>strings.Split(path, "@")\<close>): the accumulator restarts at every \<open>@\<close>.
\<close>

fun after_last_at :: "string \<Rightarrow> string \<Rightarrow> string" where
  "after_last_at acc [] = acc"
| "after_last_at acc (c # cs) =
     (if c = CHR ''@'' then after_last_at [] cs else after_last_at (acc @ [c]) cs)"

text \<open>The regular expression \<open>^[0-9a-f]{64}i\d+$\<close> of both pin id checks.\<close>

definition is_digit :: "char \<Rightarrow> bool" where
  "is_digit c = ((48::nat) \<le> of_char c \<and> (of_char c :: nat) \<le> 57)"

definition is_lower_hex :: "char \<Rightarrow> bool" where
  "is_lower_hex c = (is_digit c \<or> ((97::nat) \<le> of_char c \<and> (of_char c :: nat) \<le> 102))"

definition match_pin_id :: "string \<Rightarrow> bool" where
  "match_pin_id s =
     (65 < length s \<and> list_all is_lower_hex (take 64 s) \<and> s ! 64 = CHR ''i''
      \<and> list_all is_digit (drop 65 s))"

section \<open>The ordered key-value engine\<close>

text \<open>
  One Pebble instance per collection. Pebble keeps its keys in bytewise lexicographic
  order (a proper prefix first) and holds one value per key; an iterator positioned with
  \<open>First()\<close> stands on the smallest key. A collection is the list of its entries in
  key order. Values are the records themselves: the JSON encoding the source puts around
  them is the identity here, and the engine's reads and writes succeed.
\<close>

fun bytes_less :: "string \<Rightarrow> string \<Rightarrow> bool" where
  "bytes_less [] [] = False"
| "bytes_less [] (y # ys) = True"
| "bytes_less (x # xs) [] = False"
| "bytes_less (x # xs) (y # ys) =
     ((of_char x :: nat) < of_char y \<or> (x = y \<and> bytes_less xs ys))"

type_synonym 'v collection = "(string \<times> 'v) list"

fun pebble_Set :: "string \<Rightarrow> 'v \<Rightarrow> 'v collection \<Rightarrow> 'v collection" where
  "pebble_Set k v [] = [(k, v)]"
| "pebble_Set k v ((k', v') # c) =
     (if k = k' then (k, v) # c
      else if bytes_less k k' then (k, v) # (k', v') # c
      else (k', v') # pebble_Set k v c)"

fun pebble_Delete :: "string \<Rightarrow> 'v collection \<Rightarrow> 'v collection" where
  "pebble_Delete k [] = []"
| "pebble_Delete k ((k', v') # c) =
     (if k = k' then c else (k', v') # pebble_Delete k c)"

definition pebble_Get :: "string \<Rightarrow> 'v collection \<Rightarrow> 'v option" where
  "pebble_Get k c = map_of c k"

section \<open>Models\<close>

text \<open>\<open>models.MetaApp\<close>.\<close>

record MetaApp =
  FirstPinId :: string
  PinID :: string
  TxID :: string
  Vout :: u32
  Path :: string
  Operation :: string
  ParentPath :: string
  Title :: string
  AppName :: string
  Prompt :: string
  Icon :: string
  CoverImg :: string
  IntroImgs :: "string list"
  Intro :: string
  Runtime :: string
  IndexFile :: string
  Version :: string
  ContentType :: string
  Content :: string
  Code :: string
  ContentHash :: string
  Metadata :: string
  Disabled :: bool
  ChainName :: string
  BlockHeight :: i64
  Timestamp :: i64
  CreatorMetaId :: string
  CreatorAddress :: string
  OwnerAddress :: string
  OwnerMetaId :: string
  Status :: i64
  State :: i64
  CreatedAt :: time
  UpdatedAt :: time

text \<open>\<open>models.MetaAppDeployQueue\<close>.\<close>

record MetaAppDeployQueue =
  q_FirstPinId :: string
  q_PinID :: string
  q_Timestamp :: i64
  q_Content :: string
  q_Code :: string
  q_ContentType :: string
  q_Version :: string
  q_TryCount :: i64
  q_CreatedAt :: time

text \<open>\<open>models.MetaAppDeployFileContent\<close>.\<close>

record MetaAppDeployFileContent =
  d_FirstPinId :: string
  d_PinID :: string
  d_Content :: string
  d_Code :: string
  d_ContentType :: string
  d_Version :: string
  d_DeployStatus :: string
  d_DeployFilePath :: string
  d_DeployMessage :: string
  d_CreatedAt :: time
  d_UpdatedAt :: time

section \<open>The database\<close>

text \<open>\<open>PebbleDatabase\<close>: the collections the indexer and the deploy worker use.\<close>

record PebbleDatabase =
  metaapp_pin :: "MetaApp collection"
  metaapp_pin_latest :: "MetaApp collection"
  metaapp_pin_history :: "MetaApp list collection"
  metaapp_meta_timestamp :: "MetaApp collection"
  metaapp_timestamp :: "MetaApp collection"
  metaapp_deploy_file_content :: "MetaAppDeployFileContent collection"
  metaapp_deploy_queue :: "MetaAppDeployQueue collection"

definition empty_db :: PebbleDatabase where
  "empty_db = \<lparr>metaapp_pin = [], metaapp_pin_latest = [], metaapp_pin_history = [],
     metaapp_meta_timestamp = [], metaapp_timestamp = [],
     metaapp_deploy_file_content = [], metaapp_deploy_queue = []\<rparr>"

text \<open>A Go \<open>error\<close> is its message. \<open>database.ErrNotFound\<close>:\<close>

type_synonym error = string

definition ErrNotFound :: error where
  "ErrNotFound = ''record not found''"

subsection \<open>The deploy queue\<close>

text \<open>\<open>AddToDeployQueue\<close>: one \<open>Set\<close> under the key \<open>reverse_timestamp:pin_id\<close>.\<close>

definition queue_key :: "MetaAppDeployQueue \<Rightarrow> string" where
  "queue_key queue = FormatInt (MaxInt64 - q_Timestamp queue) @ '':'' @ q_PinID queue"

definition AddToDeployQueue :: "MetaAppDeployQueue \<Rightarrow> PebbleDatabase \<Rightarrow> PebbleDatabase" where
  "AddToDeployQueue queue db =
     db\<lparr>metaapp_deploy_queue := pebble_Set (queue_key queue) queue (metaapp_deploy_queue db)\<rparr>"

text \<open>\<open>GetDeployQueueItem\<close>: the first entry, in key order, with the pin id.\<close>

definition GetDeployQueueItem :: "string \<Rightarrow> PebbleDatabase \<Rightarrow> error + MetaAppDeployQueue" where
  "GetDeployQueueItem pinID db =
     (case find (\<lambda>(k, q). q_PinID q = pinID) (metaapp_deploy_queue db) of
        Some (k, q) \<Rightarrow> Inr q
      | None \<Rightarrow> Inl ErrNotFound)"

text \<open>\<open>UpdateDeployQueueItem\<close>: overwrite the value under the key of that first entry.\<close>

definition UpdateDeployQueueItem :: "MetaAppDeployQueue \<Rightarrow> PebbleDatabase \<Rightarrow> error + PebbleDatabase" where
  "UpdateDeployQueueItem queue db =
     (case find (\<lambda>(k, q). q_PinID q = q_PinID queue) (metaapp_deploy_queue db) of
        Some (k, q) \<Rightarrow>
          Inr (db\<lparr>metaapp_deploy_queue := pebble_Set k queue (metaapp_deploy_queue db)\<rparr>)
      | None \<Rightarrow> Inl ErrNotFound)"

text \<open>\<open>RemoveFromDeployQueue\<close>: delete the key of that first entry.\<close>

definition RemoveFromDeployQueue :: "string \<Rightarrow> PebbleDatabase \<Rightarrow> error + PebbleDatabase" where
  "RemoveFromDeployQueue pinID db =
     (case find (\<lambda>(k, q). q_PinID q = pinID) (metaapp_deploy_queue db) of
        Some (k, q) \<Rightarrow>
          Inr (db\<lparr>metaapp_deploy_queue := pebble_Delete k (metaapp_deploy_queue db)\<rparr>)
      | None \<Rightarrow> Inl ErrNotFound)"

text \<open>\<open>GetNextDeployQueueItem\<close>: the value under the iterator's first key.\<close>

definition GetNextDeployQueueItem :: "PebbleDatabase \<Rightarrow> error + MetaAppDeployQueue" where
  "GetNextDeployQueueItem db =
     (case metaapp_deploy_queue db of
        [] \<Rightarrow> Inl ErrNotFound
      | (k, q) # rest \<Rightarrow> Inr q)"

text \<open>\<open>CreateOrUpdateDeployFileContent\<close> and \<open>GetDeployFileContent\<close>, keyed by pin id.\<close>

definition CreateOrUpdateDeployFileContent ::
  "MetaAppDeployFileContent \<Rightarrow> PebbleDatabase \<Rightarrow> PebbleDatabase" where
  "CreateOrUpdateDeployFileContent content db =
     db\<lparr>metaapp_deploy_file_content :=
          pebble_Set (d_PinID content) content (metaapp_deploy_file_content db)\<rparr>"

definition GetDeployFileContent :: "string \<Rightarrow> PebbleDatabase \<Rightarrow> error + MetaAppDeployFileContent" where
  "GetDeployFileContent pinID db =
     (case pebble_Get pinID (metaapp_deploy_file_content db) of
        None \<Rightarrow> Inl ErrNotFound
      | Some content \<Rightarrow> Inr content)"

subsection \<open>MetaApp records\<close>

text \<open>
  \<open>sort.Slice(history, func(i, j) { return history[i].Timestamp > history[j].Timestamp })\<close>:
  newest first. \<open>sort.Slice\<close> leaves the order of records with equal timestamps open;
  here a record goes in front of the first record that is not newer than it.
\<close>

fun insert_by_timestamp :: "MetaApp \<Rightarrow> MetaApp list \<Rightarrow> MetaApp list" where
  "insert_by_timestamp a [] = [a]"
| "insert_by_timestamp a (b # bs) =
     (if sint (Timestamp b) > sint (Timestamp a) then b # insert_by_timestamp a bs
      else a # b # bs)"

definition sort_by_timestamp_desc :: "MetaApp list \<Rightarrow> MetaApp list" where
  "sort_by_timestamp_desc apps = foldr insert_by_timestamp apps []"

text \<open>\<open>addToHistory\<close>: read the list (none stored: empty), append, sort, write back.\<close>

definition addToHistory :: "string \<Rightarrow> MetaApp \<Rightarrow> PebbleDatabase \<Rightarrow> PebbleDatabase" where
  "addToHistory firstPinID app db =
     (let history = (case pebble_Get firstPinID (metaapp_pin_history db) of
                       None \<Rightarrow> [] | Some h \<Rightarrow> h);
          history = sort_by_timestamp_desc (history @ [app])
      in db\<lparr>metaapp_pin_history := pebble_Set firstPinID history (metaapp_pin_history db)\<rparr>)"

text \<open>
  The two index clean-ups of \<open>CreateMetaApp\<close>: every key the iterator visits (between
  the bounds, the upper one excluded; all keys when there are no bounds) that ends with
  \<open>:first_pin_id\<close> and is not the new key is deleted.
\<close>

definition in_bounds :: "string \<Rightarrow> string \<Rightarrow> string \<Rightarrow> bool" where
  "in_bounds lower upper k = (\<not> bytes_less k lower \<and> bytes_less k upper)"

definition delete_stale :: "(string \<Rightarrow> bool) \<Rightarrow> string \<Rightarrow> string \<Rightarrow> 'v collection \<Rightarrow> 'v collection" where
  "delete_stale visited firstPinID newKey c =
     filter (\<lambda>(k, v). \<not> (visited k \<and> HasSuffix k ('':'' @ firstPinID) \<and> k \<noteq> newKey)) c"

text \<open>
  \<open>CreateMetaApp\<close>. The record is passed by pointer and its \<open>FirstPinId\<close> is assigned
  the record's \<open>PinID\<close> when empty (\<open>stored_app\<close>), before anything is written, so the
  record as written is returned with the database.
\<close>

definition stored_app :: "MetaApp \<Rightarrow> MetaApp" where
  "stored_app app = (if FirstPinId app = [] then app\<lparr>FirstPinId := PinID app\<rparr> else app)"

definition CreateMetaApp :: "MetaApp \<Rightarrow> PebbleDatabase \<Rightarrow> MetaApp \<times> PebbleDatabase" where
  "CreateMetaApp app0 db0 =
     (let app = stored_app app0;
          firstPinID = FirstPinId app;
          db = db0\<lparr>metaapp_pin := pebble_Set (PinID app) app (metaapp_pin db0)\<rparr>;
          db = db\<lparr>metaapp_pin_latest := pebble_Set firstPinID app (metaapp_pin_latest db)\<rparr>;
          db = addToHistory firstPinID app db;
          reverseTimestampKey = FormatInt (MaxInt64 - Timestamp app);
          metaIDTimestampKey = CreatorMetaId app @ '':'' @ reverseTimestampKey @ '':'' @ firstPinID;
          prefix = CreatorMetaId app @ '':'';
          db = db\<lparr>metaapp_meta_timestamp :=
                 pebble_Set metaIDTimestampKey app
                   (delete_stale (in_bounds prefix (prefix @ ''~'')) firstPinID metaIDTimestampKey
                      (metaapp_meta_timestamp db))\<rparr>;
          timestampIndexKey = reverseTimestampKey @ '':'' @ firstPinID;
          db = db\<lparr>metaapp_timestamp :=
                 pebble_Set timestampIndexKey app
                   (delete_stale (\<lambda>k. True) firstPinID timestampIndexKey (metaapp_timestamp db))\<rparr>
      in (app, db))"

definition GetMetaAppByPinID :: "string \<Rightarrow> PebbleDatabase \<Rightarrow> error + MetaApp" where
  "GetMetaAppByPinID pinID db =
     (case pebble_Get pinID (metaapp_pin db) of
        None \<Rightarrow> Inl ErrNotFound
      | Some app \<Rightarrow> Inr app)"


text \<open>\<open>UpdateMetaApp\<close>: "simply recreate (overwrite)".\<close>

definition UpdateMetaApp :: "MetaApp \<Rightarrow> PebbleDatabase \<Rightarrow> MetaApp \<times> PebbleDatabase" where
  "UpdateMetaApp app db = CreateMetaApp app db"

section \<open>The indexer service\<close>

text \<open>\<open>indexer.MetaIDData\<close>, one decoded pin of a transaction.\<close>

record MetaIDData =
  m_PinID :: string
  m_Operation :: string
  m_OriginalPath :: string
  m_Host :: string
  m_Path :: string
  m_ParentPath :: string
  m_Encryption :: string
  m_Version :: string
  m_ContentType :: string
  m_Content :: "byte list"
  m_TxID :: string
  m_Vout :: u32
  m_CreatorInputLocation :: string
  m_CreatorAddress :: string
  m_OwnerAddress :: string
  m_ChainName :: string

text \<open>\<open>metaid_protocols.MetaApp\<close>, the decoded JSON payload.\<close>

record MetaAppProto =
  p_Title :: string
  p_AppName :: string
  p_Prompt :: string
  p_Icon :: string
  p_CoverImg :: string
  p_IntroImgs :: "string list"
  p_Intro :: string
  p_Runtime :: string
  p_IndexFile :: string
  p_Version :: string
  p_ContentType :: string
  p_Content :: string
  p_Code :: string
  p_ContentHash :: string
  p_Metadata :: string
  p_Disabled :: bool

text \<open>
  What the service reads from outside the repository's code: the node lookup behind
  \<open>FindCreatorAddressFromCreatorInputLocation\<close> (location and chain type to an address,
  or an error), \<open>json.Unmarshal\<close> into the payload structure, SHA-256, and the chain
  type the service was created with.
\<close>

record IndexerEnv =
  FindCreatorAddress :: "string \<Rightarrow> string \<Rightarrow> error + string"
  json_Unmarshal :: "byte list \<Rightarrow> error + MetaAppProto"
  sha256_Sum256 :: "byte list \<Rightarrow> byte list"
  chainType :: string

definition ProtocolList :: "string list" where
  "ProtocolList = [''/protocols/'' @ ToLower ''metaapp'']"

definition isMetaAppPath :: "string \<Rightarrow> bool \<times> bool" where
  "isMetaAppPath path =
     (if path = [] then (False, False)
      else if list_ex (\<lambda>protocolPath. HasPrefix path protocolPath \<or> Contains path protocolPath)
                ProtocolList
      then (True, False)
      else if HasPrefix path ''@'' then (True, True)
      else if Contains path ''@''
              \<and> match_pin_id (TrimSuffix (after_last_at [] path) ''}'')
      then (True, True)
      else (False, False))"

text \<open>\<open>hex.EncodeToString\<close> and \<open>calculateMetaID\<close>.\<close>

definition hex_digit :: "nat \<Rightarrow> char" where
  "hex_digit n = ''0123456789abcdef'' ! n"

definition EncodeToString :: "byte list \<Rightarrow> string" where
  "EncodeToString bs = concat (map (\<lambda>b. [hex_digit (unat b div 16), hex_digit (unat b mod 16)]) bs)"

definition bytes_of_string :: "string \<Rightarrow> byte list" where
  "bytes_of_string s = map of_char s"

definition calculateMetaID :: "IndexerEnv \<Rightarrow> string \<Rightarrow> string" where
  "calculateMetaID env address =
     (if address = [] then [] else EncodeToString (sha256_Sum256 env (bytes_of_string address)))"

text \<open>
  \<open>findFirstPinIDRecursive\<close>. The \<open>visited\<close> map is a set of pin ids; every recursive
  call is made after the current pin id, which was not in the set and is stored in the
  pin collection, has been added to it.
\<close>

function findFirstPinIDRecursive :: "PebbleDatabase \<Rightarrow> string \<Rightarrow> string set \<Rightarrow> error + string" where
  "findFirstPinIDRecursive db pinID visited =
     (if pinID \<in> visited then Inl (''circular reference detected for pinID: '' @ pinID)
      else
        (case GetMetaAppByPinID pinID db of
           Inl err \<Rightarrow> Inl (''MetaApp not found for pinID '' @ pinID)
         | Inr metaApp \<Rightarrow>
             if Operation metaApp = ''create'' then
               (if FirstPinId metaApp \<noteq> [] then Inr (FirstPinId metaApp)
                else Inr (PinID metaApp))
             else if Operation metaApp = ''modify'' then
               (if FirstPinId metaApp \<noteq> [] then
                  (if FirstPinId metaApp \<noteq> pinID
                   then findFirstPinIDRecursive db (FirstPinId metaApp) (insert pinID visited)
                   else Inr (FirstPinId metaApp))
                else if Path metaApp \<noteq> [] \<and> HasPrefix (Path metaApp) ''@''
                        \<and> TrimPrefix (Path metaApp) ''@'' \<noteq> []
                        \<and> TrimPrefix (Path metaApp) ''@'' \<noteq> pinID
                then findFirstPinIDRecursive db (TrimPrefix (Path metaApp) ''@'') (insert pinID visited)
                else Inr pinID)
             else Inr pinID))"
  by pat_completeness auto
termination
proof (relation "measure (\<lambda>(db, pinID, visited). card (fst ` set (metaapp_pin db) - visited))")
  show "wf (measure (\<lambda>(db, pinID, visited). card (fst ` set (metaapp_pin db) - visited)))"
    by simp
next
  fix db :: PebbleDatabase and pinID :: string and visited :: "string set" and metaApp :: MetaApp
  assume nv: "pinID \<notin> visited" and got: "GetMetaAppByPinID pinID db = Inr metaApp"
  from got have "pinID \<in> fst ` set (metaapp_pin db)"
    by (auto simp: GetMetaAppByPinID_def pebble_Get_def split: option.splits
          dest!: map_of_SomeD intro: rev_image_eqI)
  with nv have "fst ` set (metaapp_pin db) - insert pinID visited
                  \<subset> fst ` set (metaapp_pin db) - visited"
    by blast
  then have less: "card (fst ` set (metaapp_pin db) - insert pinID visited)
                  < card (fst ` set (metaapp_pin db) - visited)"
    by (intro psubset_card_mono) simp_all
  {
    show "((db, FirstPinId metaApp, insert pinID visited), db, pinID, visited)
            \<in> measure (\<lambda>(db, pinID, visited). card (fst ` set (metaapp_pin db) - visited))"
      using less by simp
  next
    show "((db, TrimPrefix (Path metaApp) ''@'', insert pinID visited), db, pinID, visited)
            \<in> measure (\<lambda>(db, pinID, visited). card (fst ` set (metaapp_pin db) - visited))"
      using less by simp
  }
qed

declare findFirstPinIDRecursive.simps [simp del]

text \<open>
  \<open>extractFirstPinIDFromOriginalPath\<close>; \<open>currentPinID\<close> is the path without its
  leading \<open>@\<close>, or the whole path when it has none.
\<close>

definition currentPinID :: "string \<Rightarrow> string" where
  "currentPinID path = (if HasPrefix path ''@'' then TrimPrefix path ''@'' else path)"

definition extractFirstPinIDFromOriginalPath :: "PebbleDatabase \<Rightarrow> string \<Rightarrow> error + string" where
  "extractFirstPinIDFromOriginalPath db path =
     (if path = [] then Inl ''path is empty''
      else if currentPinID path = [] then Inl (''invalid path format: '' @ path)
      else findFirstPinIDRecursive db (currentPinID path) {})"

definition ensureMillisecondTimestamp :: "i64 \<Rightarrow> i64" where
  "ensureMillisecondTimestamp timestamp =
     (if sint timestamp < 10000000000 then timestamp * 1000 else timestamp)"

text \<open>
  The artifact reference, computed the same way by the service's \<open>addToDeployQueue\<close>
  and by \<open>RedeployMetaApp\<close> (from a record) and by \<open>deployMetaApp\<close> (from the queue
  item): the code field, else the content field with \<open>metafile://\<close> in front when it
  lacks it, else empty.
\<close>

definition code_or_content :: "string \<Rightarrow> string \<Rightarrow> string" where
  "code_or_content code content =
     (if code \<noteq> [] then code
      else if content \<noteq> [] then
        (if HasPrefix content ''metafile://'' then content else ''metafile://'' @ content)
      else [])"

text \<open>The service's \<open>addToDeployQueue\<close>.\<close>

definition addToDeployQueue :: "time \<Rightarrow> MetaApp \<Rightarrow> PebbleDatabase \<Rightarrow> PebbleDatabase" where
  "addToDeployQueue now metaApp db =
     (let codePinID = code_or_content (Code metaApp) (Content metaApp)
      in if codePinID = [] then db
         else AddToDeployQueue
                \<lparr>q_FirstPinId = FirstPinId metaApp, q_PinID = PinID metaApp,
                 q_Timestamp = Timestamp metaApp, q_Content = Content metaApp,
                 q_Code = codePinID, q_ContentType = ContentType metaApp,
                 q_Version = Version metaApp, q_TryCount = 0, q_CreatedAt = now\<rparr> db)"

text \<open>
  The record \<open>processMetaAppContent\<close> and \<open>processMetaAppModify\<close> build; they differ in
  the \<open>first_pin_id\<close> they pass.
\<close>

definition build_MetaApp ::
  "IndexerEnv \<Rightarrow> time \<Rightarrow> MetaIDData \<Rightarrow> MetaAppProto \<Rightarrow> string \<Rightarrow> string \<Rightarrow> i64 \<Rightarrow> i64 \<Rightarrow> MetaApp" where
  "build_MetaApp env now metaData metaAppProto firstPinID creatorAddress height timestamp =
     \<lparr>FirstPinId = firstPinID, PinID = m_PinID metaData, TxID = m_TxID metaData,
      Vout = m_Vout metaData, Path = m_Path metaData, Operation = m_Operation metaData,
      ParentPath = m_ParentPath metaData, Title = p_Title metaAppProto,
      AppName = p_AppName metaAppProto, Prompt = p_Prompt metaAppProto,
      Icon = p_Icon metaAppProto, CoverImg = p_CoverImg metaAppProto,
      IntroImgs = p_IntroImgs metaAppProto, Intro = p_Intro metaAppProto,
      Runtime = p_Runtime metaAppProto, IndexFile = p_IndexFile metaAppProto,
      Version = p_Version metaAppProto, ContentType = p_ContentType metaAppProto,
      Content = p_Content metaAppProto, Code = p_Code metaAppProto,
      ContentHash = p_ContentHash metaAppProto,
      Metadata = (if p_Metadata metaAppProto = [] then ''{}'' else p_Metadata metaAppProto),
      Disabled = p_Disabled metaAppProto, ChainName = m_ChainName metaData,
      BlockHeight = height, Timestamp = ensureMillisecondTimestamp timestamp,
      CreatorMetaId = calculateMetaID env creatorAddress, CreatorAddress = creatorAddress,
      OwnerAddress = m_OwnerAddress metaData,
      OwnerMetaId = calculateMetaID env (m_OwnerAddress metaData),
      Status = 1, State = 0, CreatedAt = now, UpdatedAt = now\<rparr>"

definition resolve_creator_address :: "IndexerEnv \<Rightarrow> MetaIDData \<Rightarrow> string" where
  "resolve_creator_address env metaData =
     (if m_CreatorInputLocation metaData \<noteq> [] then
        (case FindCreatorAddress env (m_CreatorInputLocation metaData) (chainType env) of
           Inl err \<Rightarrow> m_CreatorAddress metaData
         | Inr realAddress \<Rightarrow> realAddress)
      else m_CreatorAddress metaData)"

definition processMetaAppContent ::
  "IndexerEnv \<Rightarrow> time \<Rightarrow> MetaIDData \<Rightarrow> i64 \<Rightarrow> i64 \<Rightarrow> PebbleDatabase \<Rightarrow> error option \<times> PebbleDatabase" where
  "processMetaAppContent env now metaData height timestamp db =
     (let creatorAddress = resolve_creator_address env metaData
      in case json_Unmarshal env (m_Content metaData) of
           Inl err \<Rightarrow> (Some (''failed to parse MetaApp JSON: '' @ err), db)
         | Inr metaAppProto \<Rightarrow>
             (let (metaApp, db) =
                    CreateMetaApp (build_MetaApp env now metaData metaAppProto (m_PinID metaData)
                                     creatorAddress height timestamp) db
              in (None, addToDeployQueue now metaApp db)))"

definition processMetaAppModify ::
  "IndexerEnv \<Rightarrow> time \<Rightarrow> MetaIDData \<Rightarrow> string \<Rightarrow> i64 \<Rightarrow> i64 \<Rightarrow> PebbleDatabase \<Rightarrow> error option \<times> PebbleDatabase" where
  "processMetaAppModify env now metaData firstPinID height timestamp db =
     (let creatorAddress = resolve_creator_address env metaData
      in case json_Unmarshal env (m_Content metaData) of
           Inl err \<Rightarrow> (Some (''failed to parse MetaApp JSON: '' @ err), db)
         | Inr metaAppProto \<Rightarrow>
             (let (metaApp, db) =
                    CreateMetaApp (build_MetaApp env now metaData metaAppProto firstPinID
                                     creatorAddress height timestamp) db
              in (None, addToDeployQueue now metaApp db)))"

text \<open>
  The body of the loop of \<open>handleTransaction\<close>, for one pin; every \<open>continue\<close> is a
  branch that returns the database it has reached.
\<close>

definition handlePin :: "IndexerEnv \<Rightarrow> time \<Rightarrow> i64 \<Rightarrow> i64 \<Rightarrow> PebbleDatabase \<Rightarrow> MetaIDData \<Rightarrow> PebbleDatabase" where
  "handlePin env now height timestamp db metaData =
     (if \<not> fst (isMetaAppPath (m_Path metaData)) then db
      else
        (case GetMetaAppByPinID (m_PinID metaData) db of
           Inr existingApp \<Rightarrow>
             if sint (BlockHeight existingApp) < sint height \<and> sint height > 0
             then snd (UpdateMetaApp (existingApp\<lparr>BlockHeight := height\<rparr>) db)
             else db
         | Inl err \<Rightarrow>
             if m_Operation metaData = ''modify'' \<and> m_Path metaData \<noteq> [] then
               (case extractFirstPinIDFromOriginalPath db (m_Path metaData) of
                  Inl err \<Rightarrow> db
                | Inr firstPinID \<Rightarrow>
                    if firstPinID \<noteq> []
                    then snd (processMetaAppModify env now metaData firstPinID height timestamp db)
                    else db)
             else if m_Operation metaData = ''create'' \<and> snd (isMetaAppPath (m_Path metaData))
             then db
             else snd (processMetaAppContent env now metaData height timestamp db)))"


section \<open>The deploy worker\<close>

subsection \<open>Paths and the file system\<close>

text \<open>
  \<open>path/filepath\<close> on a Unix system. \<open>Clean\<close> drops empty and \<open>.\<close> elements, lets a
  \<open>..\<close> remove the element before it, drops a \<open>..\<close> at the start of a rooted path and
  returns \<open>.\<close> for an empty result; \<open>Join\<close> joins from the first non-empty element and
  cleans; \<open>Dir\<close> cleans what stands before the last separator.
\<close>

fun split_slash :: "string \<Rightarrow> string \<Rightarrow> string list" where
  "split_slash acc [] = [acc]"
| "split_slash acc (c # cs) =
     (if c = CHR ''/'' then acc # split_slash [] cs else split_slash (acc @ [c]) cs)"

fun join_slash :: "string list \<Rightarrow> string" where
  "join_slash [] = []"
| "join_slash [e] = e"
| "join_slash (e # es) = e @ ''/'' @ join_slash es"

fun clean_components :: "bool \<Rightarrow> string list \<Rightarrow> string list \<Rightarrow> string list" where
  "clean_components rooted out [] = rev out"
| "clean_components rooted out (c # cs) =
     (if c = [] \<or> c = ''.'' then clean_components rooted out cs
      else if c = ''..'' then
        (case out of
           [] \<Rightarrow> if rooted then clean_components rooted [] cs
                 else clean_components rooted [c] cs
         | x # xs \<Rightarrow> if x = ''..'' then clean_components rooted (c # out) cs
                     else clean_components rooted xs cs)
      else clean_components rooted (c # out) cs)"

definition filepath_Clean :: "string \<Rightarrow> string" where
  "filepath_Clean path =
     (let rooted = HasPrefix path ''/'' \<and> path \<noteq> [];
          s = (if rooted then ''/'' else []) @ join_slash (clean_components rooted [] (split_slash [] path))
      in if s = [] then ''.'' else s)"

definition filepath_Join :: "string list \<Rightarrow> string" where
  "filepath_Join elem =
     (case dropWhile (\<lambda>e. e = []) elem of
        [] \<Rightarrow> []
      | es \<Rightarrow> filepath_Clean (join_slash es))"

definition filepath_Dir :: "string \<Rightarrow> string" where
  "filepath_Dir path = filepath_Clean (rev (dropWhile (\<lambda>c. c \<noteq> CHR ''/'') (rev path)))"

text \<open>
  The disk: cleaned paths with what is there. The working directory and the root always
  exist. An operation fails when the system says so (\<open>io_fault\<close>, by operation and
  path) or when the disk as it stands refuses it.
\<close>

datatype fs_node = DirNode | FileNode "byte list"

type_synonym filesystem = "(string \<times> fs_node) list"

datatype io_op =
    OpReadDir string | OpRemoveAll string | OpMkdirAll string | OpCreate string
  | OpOpenFile string | OpCopy string | OpZipEntryOpen string

definition fs_lookup :: "filesystem \<Rightarrow> string \<Rightarrow> fs_node option" where
  "fs_lookup fs p = map_of fs p"

definition fs_write :: "string \<Rightarrow> fs_node \<Rightarrow> filesystem \<Rightarrow> filesystem" where
  "fs_write p n fs = (p, n) # filter (\<lambda>(q, x). q \<noteq> p) fs"

definition is_dir :: "filesystem \<Rightarrow> string \<Rightarrow> bool" where
  "is_dir fs p = (p = ''.'' \<or> p = ''/'' \<or> fs_lookup fs p = Some DirNode)"

text \<open>\<open>zip.File\<close>: name, whether the header marks a directory, mode bits, content.\<close>

record zip_File =
  z_Name :: string
  z_IsDir :: bool
  z_Mode :: u32
  z_Data :: "byte list"

text \<open>The fields of \<open>MetafsResponse\<close> and \<open>MetafsFileInfo\<close> that the worker reads.\<close>

record MetafsFileInfo =
  f_ContentType :: string
  f_FileExtension :: string
  f_FileName :: string
  f_FileSize :: i64

record MetafsResponse =
  r_Code :: i64
  r_Message :: string
  r_Data :: "MetafsFileInfo option"

text \<open>
  What the worker reads from outside: the configuration, the two HTTP requests to the
  content store by URL (a transport error, or for the first a decoding error or the
  decoded body, for the second a status code and the body), the zip reader on the bytes
  of a file, and the system's I/O faults.
\<close>

record DeployEnv =
  DeployFilePath :: string
  MetafsDomain :: string
  http_Get_info :: "string \<Rightarrow> error + (error + MetafsResponse)"
  http_Get_content :: "string \<Rightarrow> error + (i64 \<times> byte list)"
  zip_OpenReader :: "byte list \<Rightarrow> error + zip_File list"
  io_fault :: "io_op \<Rightarrow> error option"

text \<open>\<open>os.MkdirAll\<close>: every prefix of the path that is missing becomes a directory.\<close>

fun mkdir_chain :: "string option \<Rightarrow> string list \<Rightarrow> filesystem \<Rightarrow> error + filesystem" where
  "mkdir_chain pre [] fs = Inr fs"
| "mkdir_chain pre (c # cs) fs =
     (let p = (case pre of None \<Rightarrow> c | Some d \<Rightarrow> d @ ''/'' @ c)
      in if p = [] \<or> is_dir fs p then mkdir_chain (Some p) cs fs
         else if fs_lookup fs p \<noteq> None then Inl (''mkdir '' @ p @ '': not a directory'')
         else mkdir_chain (Some p) cs ((p, DirNode) # fs))"

definition os_MkdirAll :: "DeployEnv \<Rightarrow> string \<Rightarrow> filesystem \<Rightarrow> error + filesystem" where
  "os_MkdirAll env p fs =
     (case io_fault env (OpMkdirAll p) of
        Some e \<Rightarrow> Inl e
      | None \<Rightarrow> mkdir_chain None (split_slash [] p) fs)"

text \<open>\<open>os.Create\<close> and \<open>os.OpenFile\<close> with \<open>O_WRONLY|O_CREATE|O_TRUNC\<close>: an empty file.\<close>

definition create_file :: "DeployEnv \<Rightarrow> io_op \<Rightarrow> string \<Rightarrow> filesystem \<Rightarrow> error + filesystem" where
  "create_file env op p fs =
     (case io_fault env op of
        Some e \<Rightarrow> Inl e
      | None \<Rightarrow>
          if \<not> is_dir fs (filepath_Dir p) then Inl (''open '' @ p @ '': no such file or directory'')
          else if is_dir fs p then Inl (''open '' @ p @ '': is a directory'')
          else Inr (fs_write p (FileNode []) fs))"

text \<open>
  \<open>os.ReadDir\<close>: the names directly under a directory, sorted. The entries under a
  directory are the paths that extend its path by a separator.
\<close>

fun insert_name :: "string \<Rightarrow> string list \<Rightarrow> string list" where
  "insert_name n [] = [n]"
| "insert_name n (m # ms) =
     (if n = m then m # ms else if bytes_less n m then n # m # ms else m # insert_name n ms)"

definition os_ReadDir :: "DeployEnv \<Rightarrow> string \<Rightarrow> filesystem \<Rightarrow> error + string list" where
  "os_ReadDir env d fs =
     (case io_fault env (OpReadDir d) of
        Some e \<Rightarrow> Inl e
      | None \<Rightarrow>
          Inr (foldr insert_name
                 (map (\<lambda>(p, n). takeWhile (\<lambda>c. c \<noteq> CHR ''/'') (drop (length d + 1) p))
                    (filter (\<lambda>(p, n). HasPrefix p (d @ ''/'')) fs)) []))"

text \<open>\<open>os.RemoveAll\<close>: the path and everything under it.\<close>

definition os_RemoveAll :: "DeployEnv \<Rightarrow> string \<Rightarrow> filesystem \<Rightarrow> error + filesystem" where
  "os_RemoveAll env p fs =
     (case io_fault env (OpRemoveAll p) of
        Some e \<Rightarrow> Inl e
      | None \<Rightarrow> Inr (filter (\<lambda>(q, n). q \<noteq> p \<and> \<not> HasPrefix q (p @ ''/'')) fs))"

text \<open>\<open>os.Remove\<close> of a file, its error ignored by the caller.\<close>

definition os_Remove :: "string \<Rightarrow> filesystem \<Rightarrow> filesystem" where
  "os_Remove p fs = filter (\<lambda>(q, n). q \<noteq> p) fs"

subsection \<open>Download\<close>

definition isValidMetafilePinID :: "string \<Rightarrow> bool" where
  "isValidMetafilePinID pinID =
     (if \<not> HasPrefix pinID ''metafile://'' then False
      else if TrimPrefix pinID ''metafile://'' = [] then False
      else match_pin_id (TrimPrefix pinID ''metafile://''))"

definition getFileExtensionFromContentType :: "string \<Rightarrow> string" where
  "getFileExtensionFromContentType contentType0 =
     (let contentType = ToLower contentType0
      in if Contains contentType ''zip'' then ''.zip''
         else if Contains contentType ''javascript'' \<or> Contains contentType ''ecmascript'' then ''.js''
         else if Contains contentType ''html'' then ''.html''
         else if Contains contentType ''css'' then ''.css''
         else if Contains contentType ''json'' then ''.json''
         else [])"

definition download_file_name :: "string \<Rightarrow> MetafsFileInfo \<Rightarrow> string" where
  "download_file_name pinID fileInfo =
     (let fileExt =
            (if f_FileExtension fileInfo \<noteq> [] then f_FileExtension fileInfo
             else if getFileExtensionFromContentType (f_ContentType fileInfo) \<noteq> []
             then getFileExtensionFromContentType (f_ContentType fileInfo)
             else ''.bin'')
      in if ToLower fileExt = ''.html'' \<or> ToLower fileExt = ''.htm''
            \<or> Contains (ToLower (f_ContentType fileInfo)) ''html''
         then ''index.html''
         else if f_FileName fileInfo \<noteq> [] then f_FileName fileInfo
         else pinID @ fileExt)"

definition downloadFileFromMetafs ::
  "DeployEnv \<Rightarrow> string \<Rightarrow> string \<Rightarrow> filesystem \<Rightarrow> (error + string) \<times> filesystem" where
  "downloadFileFromMetafs env pinID targetDir fs =
     (let domain = MetafsDomain env
      in if domain = [] then (Inl ''metafs domain not configured'', fs)
         else
           (case http_Get_info env (TrimSuffix domain ''/'' @ ''/api/v1/files/'' @ pinID) of
              Inl e \<Rightarrow> (Inl (''failed to get file info from metafs: '' @ e), fs)
            | Inr (Inl e) \<Rightarrow> (Inl (''failed to decode file info response: '' @ e), fs)
            | Inr (Inr metafsResp) \<Rightarrow>
                (case (if r_Code metafsResp \<noteq> 0 then None else r_Data metafsResp) of
                   None \<Rightarrow>
                     (Inl (''file not found in metafs: '' @ pinID @ '' (code: ''
                           @ FormatInt (r_Code metafsResp) @ '', message: ''
                           @ r_Message metafsResp @ '')''), fs)
                 | Some fileInfo \<Rightarrow>
                     (case http_Get_content env
                             (TrimSuffix domain ''/'' @ ''/api/v1/files/accelerate/content/'' @ pinID) of
                        Inl e \<Rightarrow> (Inl (''failed to download file from metafs: '' @ e), fs)
                      | Inr (status, body) \<Rightarrow>
                          if status \<noteq> 200
                          then (Inl (''metafs returned status '' @ FormatInt status
                                     @ '' for file download''), fs)
                          else
                            (let filePath = filepath_Join [targetDir, download_file_name pinID fileInfo]
                             in case create_file env (OpCreate filePath) filePath fs of
                                  Inl e \<Rightarrow> (Inl (''failed to create file: '' @ e), fs)
                                | Inr fs1 \<Rightarrow>
                                    (case io_fault env (OpCopy filePath) of
                                       Some e \<Rightarrow> (Inl (''failed to write file: '' @ e), fs1)
                                     | None \<Rightarrow>
                                         (Inr filePath, fs_write filePath (FileNode body) fs1)))))))"

definition downloadFileFromPinID ::
  "DeployEnv \<Rightarrow> string \<Rightarrow> string \<Rightarrow> filesystem \<Rightarrow> (error + string) \<times> filesystem" where
  "downloadFileFromPinID env pinID targetDir fs =
     (if \<not> isValidMetafilePinID pinID
      then (Inl (''invalid pinId format: '' @ pinID @ '', expected format: metafile://<pinid>''), fs)
      else if MetafsDomain env = [] then (Inl ''metafs domain not configured'', fs)
      else downloadFileFromMetafs env (TrimPrefix pinID ''metafile://'') targetDir fs)"

subsection \<open>Unzip\<close>

text \<open>
  The loop of \<open>unzipFile\<close> over the archive's entries, in archive order: the path check,
  then a directory (its error ignored) or a file; the first error ends the loop with
  the disk as the entries before it left it (a file whose content could not be opened or
  copied has been created and is left empty).
\<close>

fun unzip_entries :: "DeployEnv \<Rightarrow> string \<Rightarrow> zip_File list \<Rightarrow> filesystem \<Rightarrow> error option \<times> filesystem" where
  "unzip_entries env targetDir [] fs = (None, fs)"
| "unzip_entries env targetDir (f # rest) fs =
     (let fpath = filepath_Join [targetDir, z_Name f]
      in if \<not> HasPrefix fpath (filepath_Clean targetDir @ ''/'')
         then (Some (''invalid file path: '' @ fpath), fs)
         else if z_IsDir f then
           (case os_MkdirAll env fpath fs of
              Inl e \<Rightarrow> unzip_entries env targetDir rest fs
            | Inr fs1 \<Rightarrow> unzip_entries env targetDir rest fs1)
         else
           (case os_MkdirAll env (filepath_Dir fpath) fs of
              Inl e \<Rightarrow> (Some e, fs)
            | Inr fs1 \<Rightarrow>
                (case create_file env (OpOpenFile fpath) fpath fs1 of
                   Inl e \<Rightarrow> (Some e, fs1)
                 | Inr fs2 \<Rightarrow>
                     (case io_fault env (OpZipEntryOpen (z_Name f)) of
                        Some e \<Rightarrow> (Some e, fs2)
                      | None \<Rightarrow>
                          (case io_fault env (OpCopy fpath) of
                             Some e \<Rightarrow> (Some e, fs2)
                           | None \<Rightarrow>
                               unzip_entries env targetDir rest
                                 (fs_write fpath (FileNode (z_Data f)) fs2))))))"

definition unzipFile :: "DeployEnv \<Rightarrow> string \<Rightarrow> string \<Rightarrow> filesystem \<Rightarrow> error option \<times> filesystem" where
  "unzipFile env zipPath targetDir fs =
     (case fs_lookup fs zipPath of
        Some (FileNode bytes) \<Rightarrow>
          (case zip_OpenReader env bytes of
             Inl e \<Rightarrow> (Some e, fs)
           | Inr files \<Rightarrow> unzip_entries env targetDir files fs)
      | Some DirNode \<Rightarrow> (Some (''read '' @ zipPath @ '': is a directory''), fs)
      | None \<Rightarrow> (Some (''open '' @ zipPath @ '': no such file or directory''), fs))"

subsection \<open>One deployment, one tick\<close>

text \<open>The loop of \<open>deployMetaApp\<close> that empties an existing deploy directory.\<close>

fun clear_entries :: "DeployEnv \<Rightarrow> string \<Rightarrow> string list \<Rightarrow> filesystem \<Rightarrow> error option \<times> filesystem" where
  "clear_entries env appDeployDir [] fs = (None, fs)"
| "clear_entries env appDeployDir (entry # entries) fs =
     (let entryPath = filepath_Join [appDeployDir, entry]
      in case os_RemoveAll env entryPath fs of
           Inl e \<Rightarrow> (Some (''failed to remove existing file/directory '' @ entryPath @ '': '' @ e), fs)
         | Inr fs1 \<Rightarrow> clear_entries env appDeployDir entries fs1)"

definition prepare_deploy_dir :: "DeployEnv \<Rightarrow> string \<Rightarrow> filesystem \<Rightarrow> error option \<times> filesystem" where
  "prepare_deploy_dir env appDeployDir fs =
     (let cleared =
            (if is_dir fs appDeployDir then
               (case os_ReadDir env appDeployDir fs of
                  Inl e \<Rightarrow> (Some (''failed to read deploy directory: '' @ e), fs)
                | Inr entries \<Rightarrow> clear_entries env appDeployDir entries fs)
             else (None, fs))
      in case cleared of
           (Some e, fs1) \<Rightarrow> (Some e, fs1)
         | (None, fs1) \<Rightarrow>
             (case os_MkdirAll env appDeployDir fs1 of
                Inl e \<Rightarrow> (Some (''failed to create deploy directory: '' @ e), fs1)
              | Inr fs2 \<Rightarrow> (None, fs2)))"

definition deploy_content ::
  "time \<Rightarrow> MetaApp \<Rightarrow> MetaAppDeployQueue \<Rightarrow> string \<Rightarrow> string \<Rightarrow> string \<Rightarrow> MetaAppDeployFileContent" where
  "deploy_content now metaApp queueItem appDeployDir status message =
     \<lparr>d_FirstPinId = FirstPinId metaApp, d_PinID = PinID metaApp,
      d_Content = q_Content queueItem, d_Code = q_Code queueItem,
      d_ContentType = q_ContentType queueItem, d_Version = q_Version queueItem,
      d_DeployStatus = status, d_DeployFilePath = appDeployDir, d_DeployMessage = message,
      d_CreatedAt = now, d_UpdatedAt = now\<rparr>"

text \<open>The deploy root of a record: \<open>deployBaseDir\<close> joined with its \<open>first_pin_id\<close>.\<close>

definition app_deploy_dir :: "DeployEnv \<Rightarrow> MetaApp \<Rightarrow> string" where
  "app_deploy_dir env metaApp =
     filepath_Join [if DeployFilePath env = [] then ''./meta_app_deploy_data''
                    else DeployFilePath env, FirstPinId metaApp]"

definition deployMetaApp ::
  "DeployEnv \<Rightarrow> time \<Rightarrow> MetaAppDeployQueue \<Rightarrow> PebbleDatabase \<Rightarrow> filesystem
     \<Rightarrow> error option \<times> PebbleDatabase \<times> filesystem" where
  "deployMetaApp env now queueItem db fs =
     (case GetMetaAppByPinID (q_PinID queueItem) db of
        Inl err \<Rightarrow> (Some (''failed to get MetaApp: '' @ err), db, fs)
      | Inr metaApp \<Rightarrow>
          (let appDeployDir = app_deploy_dir env metaApp
           in case prepare_deploy_dir env appDeployDir fs of
                (Some e, fs1) \<Rightarrow> (Some e, db, fs1)
              | (None, fs1) \<Rightarrow>
                  (let pinIDToDownload = code_or_content (q_Code queueItem) (q_Content queueItem)
                   in if pinIDToDownload = [] then (Some ''no pinId to download'', db, fs1)
                      else if \<not> isValidMetafilePinID pinIDToDownload
                      then (Some (''invalid pinId format: '' @ pinIDToDownload
                                  @ '', expected format: metafile://<pinid>''), db, fs1)
                      else
                        (case downloadFileFromPinID env pinIDToDownload appDeployDir fs1 of
                           (Inl err, fs2) \<Rightarrow>
                             (Some (''failed to download file: '' @ err),
                              CreateOrUpdateDeployFileContent
                                (deploy_content now metaApp queueItem appDeployDir ''failed'' err) db,
                              fs2)
                         | (Inr filePath, fs2) \<Rightarrow>
                             (let fs3 =
                                    (if HasSuffix (ToLower filePath) ''.zip'' then
                                       (case unzipFile env filePath appDeployDir fs2 of
                                          (Some e, fs') \<Rightarrow> fs'
                                        | (None, fs') \<Rightarrow> os_Remove filePath fs')
                                     else fs2)
                              in (None,
                                  CreateOrUpdateDeployFileContent
                                    (deploy_content now metaApp queueItem appDeployDir ''completed'' []) db,
                                  fs3))))))"

text \<open>\<open>processNextDeployItem\<close>, one tick of the worker; \<open>maxRetryCount\<close> is 3.\<close>

definition maxRetryCount :: int where
  "maxRetryCount = 3"

definition processNextDeployItem ::
  "DeployEnv \<Rightarrow> time \<Rightarrow> PebbleDatabase \<Rightarrow> filesystem \<Rightarrow> error option \<times> PebbleDatabase \<times> filesystem" where
  "processNextDeployItem env now db fs =
     (case GetNextDeployQueueItem db of
        Inl err \<Rightarrow> if err = ErrNotFound then (None, db, fs) else (Some err, db, fs)
      | Inr queueItem \<Rightarrow>
          (case deployMetaApp env now queueItem db fs of
             (Some err, db1, fs1) \<Rightarrow>
               (let queueItem' = queueItem\<lparr>q_TryCount := q_TryCount queueItem + 1\<rparr>
                in if sint (q_TryCount queueItem') \<ge> maxRetryCount then
                     (case RemoveFromDeployQueue (q_PinID queueItem') db1 of
                        Inl removeErr \<Rightarrow> (Some err, db1, fs1)
                      | Inr db2 \<Rightarrow> (Some err, db2, fs1))
                   else
                     (case UpdateDeployQueueItem queueItem' db1 of
                        Inl updateErr \<Rightarrow> (Some err, db1, fs1)
                      | Inr db2 \<Rightarrow> (Some err, db2, fs1)))
           | (None, db1, fs1) \<Rightarrow>
               (case RemoveFromDeployQueue (q_PinID queueItem) db1 of
                  Inl err \<Rightarrow> (Some err, db1, fs1)
                | Inr db2 \<Rightarrow> (None, db2, fs1))))"

section \<open>The redeploy entry point\<close>


section \<open>The transaction hash of the alternate chain\<close>

text \<open>
  \<open>wire.MsgTx\<close> of the alternate chain's library, as far as the hash reads it: a
  signed 32-bit version, inputs (previous outpoint hash and index, signature script,
  sequence), outputs (signed 64-bit value, locking script) and the lock time.
\<close>

record TxIn =
  PreviousOutPoint_Hash :: "byte list"
  PreviousOutPoint_Index :: u32
  SignatureScript :: "byte list"
  Sequence :: u32

record TxOut =
  Value :: i64
  PkScript :: "byte list"

record MsgTx =
  tx_Version :: "32 word"
  tx_TxIn :: "TxIn list"
  tx_TxOut :: "TxOut list"
  tx_LockTime :: u32

text \<open>
  What \<open>GetMvcTxhash\<close> calls outside this file: the library's \<open>Deserialize\<close> and the
  two hash helpers of the \<open>tool\<close> package.
\<close>

record HashEnv =
  Deserialize :: "byte list \<Rightarrow> error + MsgTx"
  tool_SHA256 :: "byte list \<Rightarrow> byte list"
  tool_DoubleSHA256 :: "byte list \<Rightarrow> byte list"

text \<open>\<open>binary.LittleEndian\<close>: \<open>PutUint32\<close> and \<open>Uint32\<close>.\<close>

definition PutUint32 :: "u32 \<Rightarrow> byte list" where
  "PutUint32 v = [ucast v, ucast (drop_bit 8 v), ucast (drop_bit 16 v), ucast (drop_bit 24 v)]"

definition Uint32 :: "byte list \<Rightarrow> u32" where
  "Uint32 b =
     ucast (b ! 0) OR push_bit 8 (ucast (b ! 1)) OR push_bit 16 (ucast (b ! 2))
       OR push_bit 24 (ucast (b ! 3))"

text \<open>
  Modelled from the spec: \<open>tool.Uint32ToLittleEndianBytes\<close> and
  \<open>tool.Uint64ToLittleEndianBytes\<close> are not among the sources; the counts are "4-byte
  LE" and the value "8-byte LE".
\<close>

definition Uint32ToLittleEndianBytes :: "u32 \<Rightarrow> byte list" where
  "Uint32ToLittleEndianBytes v = PutUint32 v"

definition Uint64ToLittleEndianBytes :: "u64 \<Rightarrow> byte list" where
  "Uint64ToLittleEndianBytes v =
     [ucast v, ucast (drop_bit 8 v), ucast (drop_bit 16 v), ucast (drop_bit 24 v),
      ucast (drop_bit 32 v), ucast (drop_bit 40 v), ucast (drop_bit 48 v), ucast (drop_bit 56 v)]"

text \<open>The two loops of \<open>getTxNewRawByte\<close>, each appending to its buffers.\<close>

fun inputs_loop :: "HashEnv \<Rightarrow> TxIn list \<Rightarrow> byte list \<times> byte list \<Rightarrow> byte list \<times> byte list" where
  "inputs_loop env [] bufs = bufs"
| "inputs_loop env (txin # ins) (newInputsByte, newInputs2Byte) =
     inputs_loop env ins
       (newInputsByte @ PreviousOutPoint_Hash txin @ PutUint32 (PreviousOutPoint_Index txin)
          @ PutUint32 (Sequence txin),
        newInputs2Byte @ tool_SHA256 env (SignatureScript txin))"

fun outputs_loop :: "HashEnv \<Rightarrow> TxOut list \<Rightarrow> byte list \<Rightarrow> byte list" where
  "outputs_loop env [] newOutputsByte = newOutputsByte"
| "outputs_loop env (out # outs) newOutputsByte =
     outputs_loop env outs
       (newOutputsByte @ Uint64ToLittleEndianBytes (Value out) @ tool_SHA256 env (PkScript out))"

definition getTxNewRawByte :: "HashEnv \<Rightarrow> MsgTx \<Rightarrow> byte list" where
  "getTxNewRawByte env tx =
     (let newRawTxByte = PutUint32 (tx_Version tx) @ PutUint32 (tx_LockTime tx)
            @ Uint32ToLittleEndianBytes (of_nat (length (tx_TxIn tx)))
            @ Uint32ToLittleEndianBytes (of_nat (length (tx_TxOut tx)));
          (newInputsByte, newInputs2Byte) = inputs_loop env (tx_TxIn tx) ([], []);
          newRawTxByte = newRawTxByte @ tool_SHA256 env newInputsByte
            @ tool_SHA256 env newInputs2Byte
      in newRawTxByte @ tool_SHA256 env (outputs_loop env (tx_TxOut tx) []))"

definition GetTxNewhash :: "HashEnv \<Rightarrow> byte list \<Rightarrow> byte list" where
  "GetTxNewhash env rawTxByte =
     (case Deserialize env rawTxByte of
        Inl err \<Rightarrow> []
      | Inr tx \<Rightarrow> getTxNewRawByte env tx)"

text \<open>The in-place reversal loop of \<open>GetMvcTxhash\<close>.\<close>

function swap_loop :: "nat \<Rightarrow> byte list \<Rightarrow> byte list" where
  "swap_loop i txhash =
     (if i < length txhash div 2 then
        (let h = txhash ! (length txhash - 1 - i);
             txhash1 = txhash[length txhash - 1 - i := txhash ! i]
         in swap_loop (i + 1) (txhash1[i := h]))
      else txhash)"
  by pat_completeness auto
termination
  by (relation "measure (\<lambda>(i, txhash). length txhash div 2 - i)") auto

declare swap_loop.simps [simp del]

definition GetMvcTxhash :: "HashEnv \<Rightarrow> byte list \<Rightarrow> string" where
  "GetMvcTxhash env rawTxByte =
     (let limit = length rawTxByte
      in if limit = 0 then []
         else if 0 + 4 > limit then []
         else
           (let version = (ucast (Uint32 (take 4 rawTxByte)) :: u64);
                rawTxByte1 = (if version \<ge> 10 then GetTxNewhash env rawTxByte else rawTxByte)
            in EncodeToString (swap_loop 0 (tool_DoubleSHA256 env rawTxByte1))))"

text \<open>
  The pre-image in the specification's words: version, lock time, input count, output
  count, then the hash of all inputs' outpoints and sequences, the hash of all inputs'
  script hashes, and the hash of all outputs' values and script hashes.
\<close>

definition spec_preimage :: "HashEnv \<Rightarrow> MsgTx \<Rightarrow> byte list" where
  "spec_preimage env tx =
     PutUint32 (tx_Version tx) @ PutUint32 (tx_LockTime tx)
     @ PutUint32 (of_nat (length (tx_TxIn tx))) @ PutUint32 (of_nat (length (tx_TxOut tx)))
     @ tool_SHA256 env
         (concat (map (\<lambda>i. PreviousOutPoint_Hash i @ PutUint32 (PreviousOutPoint_Index i)
                           @ PutUint32 (Sequence i)) (tx_TxIn tx)))
     @ tool_SHA256 env (concat (map (\<lambda>i. tool_SHA256 env (SignatureScript i)) (tx_TxIn tx)))
     @ tool_SHA256 env
         (concat (map (\<lambda>out. Uint64ToLittleEndianBytes (Value out) @ tool_SHA256 env (PkScript out))
                    (tx_TxOut tx)))"

section \<open>Properties of the store and of the parent walk\<close>

text \<open>Every record in the five MetaApp collections has a non-empty \<open>first_pin_id\<close>.\<close>

definition first_pin_ids_set :: "PebbleDatabase \<Rightarrow> bool" where
  "first_pin_ids_set db =
     (list_all (\<lambda>(k, a). FirstPinId a \<noteq> []) (metaapp_pin db)
      \<and> list_all (\<lambda>(k, a). FirstPinId a \<noteq> []) (metaapp_pin_latest db)
      \<and> list_all (\<lambda>(k, h). list_all (\<lambda>a. FirstPinId a \<noteq> []) h) (metaapp_pin_history db)
      \<and> list_all (\<lambda>(k, a). FirstPinId a \<noteq> []) (metaapp_meta_timestamp db)
      \<and> list_all (\<lambda>(k, a). FirstPinId a \<noteq> []) (metaapp_timestamp db))"

text \<open>
  The pin id \<open>findFirstPinIDRecursive\<close> calls itself on from a pin id, if any: a stored
  \<open>modify\<close> record leads to its \<open>first_pin_id\<close> when that is set and another pin id,
  and to the pin id after the \<open>@\<close> of its path when no \<open>first_pin_id\<close> is set.
\<close>

definition parent_hop :: "PebbleDatabase \<Rightarrow> string \<Rightarrow> string option" where
  "parent_hop db pinID =
     (case GetMetaAppByPinID pinID db of
        Inl err \<Rightarrow> None
      | Inr metaApp \<Rightarrow>
          if Operation metaApp = ''create'' then None
          else if Operation metaApp = ''modify'' then
            (if FirstPinId metaApp \<noteq> [] then
               (if FirstPinId metaApp \<noteq> pinID then Some (FirstPinId metaApp) else None)
             else if Path metaApp \<noteq> [] \<and> HasPrefix (Path metaApp) ''@''
                     \<and> TrimPrefix (Path metaApp) ''@'' \<noteq> []
                     \<and> TrimPrefix (Path metaApp) ''@'' \<noteq> pinID
             then Some (TrimPrefix (Path metaApp) ''@'')
             else None)
          else None)"

text \<open>A walk: each pin id of the list leads to the next one.\<close>

fun parent_chain :: "PebbleDatabase \<Rightarrow> string list \<Rightarrow> bool" where
  "parent_chain db [] = True"
| "parent_chain db [p] = True"
| "parent_chain db (p # q # ps) = (parent_hop db p = Some q \<and> parent_chain db (q # ps))"





section \<open>Example data\<close>

definition pin_A :: string where
  "pin_A = ''aaaaaaaaaaaaaaaaaaaaaaaaaaaaaaaaaaaaaaaaaaaaaaaaaaaaaaaaaaaaaaaai0''"

definition pin_B :: string where
  "pin_B = ''bbbbbbbbbbbbbbbbbbbbbbbbbbbbbbbbbbbbbbbbbbbbbbbbbbbbbbbbbbbbbbbbi0''"

definition pin_C :: string where
  "pin_C = ''cccccccccccccccccccccccccccccccccccccccccccccccccccccccccccccccci0''"

definition example_proto :: MetaAppProto where
  "example_proto =
     \<lparr>p_Title = ''Demo'', p_AppName = ''demo'', p_Prompt = [], p_Icon = [], p_CoverImg = [],
      p_IntroImgs = [], p_Intro = [], p_Runtime = ''browser'', p_IndexFile = ''index.html'',
      p_Version = ''1.0.0'', p_ContentType = ''application/zip'', p_Content = [],
      p_Code = ''metafile://'' @ pin_A, p_ContentHash = [], p_Metadata = [],
      p_Disabled = False\<rparr>"

definition example_env :: IndexerEnv where
  "example_env =
     \<lparr>FindCreatorAddress = (\<lambda>location chain. Inl ''node unreachable''),
      json_Unmarshal = (\<lambda>content. Inr example_proto),
      sha256_Sum256 = (\<lambda>bytes. [0, 0, 0, 0, 0, 0, 0, 0, 0, 0, 0, 0, 0, 0, 0, 0,
                                   0, 0, 0, 0, 0, 0, 0, 0, 0, 0, 0, 0, 0, 0, 0, 0]),
      chainType = ''mvc''\<rparr>"

definition example_pin :: "string \<Rightarrow> string \<Rightarrow> string \<Rightarrow> MetaIDData" where
  "example_pin pinID operation path =
     \<lparr>m_PinID = pinID, m_Operation = operation, m_OriginalPath = path, m_Host = [],
      m_Path = path, m_ParentPath = [], m_Encryption = ''0'', m_Version = ''1.0.0'',
      m_ContentType = ''application/json'', m_Content = [], m_TxID = take 64 pinID,
      m_Vout = 0, m_CreatorInputLocation = [], m_CreatorAddress = ''1Creator'',
      m_OwnerAddress = ''1Creator'', m_ChainName = ''mvc''\<rparr>"

definition example_app :: "string \<Rightarrow> string \<Rightarrow> string \<Rightarrow> string \<Rightarrow> MetaApp" where
  "example_app pinID firstPinID operation path =
     build_MetaApp example_env 0 (example_pin pinID operation path) example_proto firstPinID
       ''1Creator'' 100 1700000000000"

definition example_queue_item :: "string \<Rightarrow> i64 \<Rightarrow> MetaAppDeployQueue" where
  "example_queue_item pinID ts =
     \<lparr>q_FirstPinId = pinID, q_PinID = pinID, q_Timestamp = ts, q_Content = [],
      q_Code = ''metafile://'' @ pinID, q_ContentType = ''application/zip'',
      q_Version = ''1.0.0'', q_TryCount = 0, q_CreatedAt = 0\<rparr>"

text \<open>A store seeded with pin records, each under its own pin id.\<close>

definition seed_pins :: "MetaApp list \<Rightarrow> PebbleDatabase" where
  "seed_pins apps = empty_db\<lparr>metaapp_pin := foldr (\<lambda>a. pebble_Set (PinID a) a) apps []\<rparr>"

text \<open>
  A content store that answers the metadata request with the given body and the content
  request with status 200 and four bytes, a zip reader that finds the given entries, a
  disk without faults.
\<close>

definition example_info :: MetafsResponse where
  "example_info =
     \<lparr>r_Code = 0, r_Message = ''ok'',
      r_Data = Some \<lparr>f_ContentType = ''application/zip'', f_FileExtension = ''.zip'',
                      f_FileName = ''app.zip'', f_FileSize = 4\<rparr>\<rparr>"

definition example_deploy_env :: "MetafsResponse \<Rightarrow> zip_File list \<Rightarrow> DeployEnv" where
  "example_deploy_env info files =
     \<lparr>DeployFilePath = ''/data/deploy'', MetafsDomain = ''https://metafs.example/'',
      http_Get_info = (\<lambda>url. Inr (Inr info)),
      http_Get_content = (\<lambda>url. Inr (200, [80, 75, 3, 4])),
      zip_OpenReader = (\<lambda>bytes. Inr files),
      io_fault = (\<lambda>op. None)\<rparr>"

definition example_entry :: "string \<Rightarrow> zip_File" where
  "example_entry name = \<lparr>z_Name = name, z_IsDir = False, z_Mode = 420, z_Data = [104, 105]\<rparr>"

text \<open>A store with one record and its queue item, as the indexer leaves them.\<close>

definition example_store :: "MetaAppDeployQueue \<Rightarrow> PebbleDatabase" where
  "example_store item =
     AddToDeployQueue item (seed_pins [example_app pin_A pin_A ''create'' ''/protocols/metaapp''])"


text \<open>
  A transaction of the alternate chain with one input and one output, and stand-ins for
  the library's parser and the hash helpers.
\<close>

definition example_tx :: MsgTx where
  "example_tx =
     \<lparr>tx_Version = 10,
      tx_TxIn = [\<lparr>PreviousOutPoint_Hash =
                     [1, 2, 3, 4, 5, 6, 7, 8, 9, 10, 11, 12, 13, 14, 15, 16,
                      17, 18, 19, 20, 21, 22, 23, 24, 25, 26, 27, 28, 29, 30, 31, 32],
                  PreviousOutPoint_Index = 0, SignatureScript = [], Sequence = 4294967295\<rparr>],
      tx_TxOut = [\<lparr>Value = 1000, PkScript = [118, 169]\<rparr>],
      tx_LockTime = 0\<rparr>"

definition example_hash_env :: HashEnv where
  "example_hash_env =
     \<lparr>Deserialize = (\<lambda>raw. if length raw < 10 then Inl ''unexpected EOF'' else Inr example_tx),
      tool_SHA256 = (\<lambda>bytes. [of_nat (length bytes)]),
      tool_DoubleSHA256 = (\<lambda>bytes. take 4 bytes)\<rparr>"

section \<open>Evaluation of the key builders\<close>

lemma MaxInt64_eq: "MaxInt64 = 9223372036854775807"
  by code_simp

lemma queue_key_older: "queue_key (example_queue_item p 1700000000000) = ''9223370336854775807:'' @ p"
  by (simp add: queue_key_def example_queue_item_def FormatInt_def MaxInt64_eq
        digits_of_int.simps char_of_def)

lemma queue_key_newer: "queue_key (example_queue_item p 1700000005000) = ''9223370336854770807:'' @ p"
  by (simp add: queue_key_def example_queue_item_def FormatInt_def MaxInt64_eq
        digits_of_int.simps char_of_def)

section \<open>The deploy queue serves the newest item first\<close>

text \<open>
  C1. The specification: the item \<open>GetNextDeployQueueItem\<close> returns is the queued item with the
  oldest timestamp. On the code: with an item of timestamp 1700000000000 and an item of
  timestamp 1700000005000 in the queue, enqueued in either order, both are queued and the
  item returned is the one with the newer timestamp, since its key, which starts with
  \<open>MaxInt64 - timestamp\<close>, is the smaller one.
\<close>

theorem GetNextDeployQueueItem_returns_newest:
  "sint (q_Timestamp (example_queue_item pin_A 1700000000000))
     < sint (q_Timestamp (example_queue_item pin_B 1700000005000))
   \<and> GetDeployQueueItem pin_A
       (AddToDeployQueue (example_queue_item pin_B 1700000005000)
          (AddToDeployQueue (example_queue_item pin_A 1700000000000) empty_db))
     = Inr (example_queue_item pin_A 1700000000000)
   \<and> GetNextDeployQueueItem
       (AddToDeployQueue (example_queue_item pin_B 1700000005000)
          (AddToDeployQueue (example_queue_item pin_A 1700000000000) empty_db))
     = Inr (example_queue_item pin_B 1700000005000)
   \<and> GetNextDeployQueueItem
       (AddToDeployQueue (example_queue_item pin_A 1700000000000)
          (AddToDeployQueue (example_queue_item pin_B 1700000005000) empty_db))
     = Inr (example_queue_item pin_B 1700000005000)"
proof -
  have ts: "sint (q_Timestamp (example_queue_item pin_A 1700000000000))
              < sint (q_Timestamp (example_queue_item pin_B 1700000005000))"
    by (simp add: example_queue_item_def)
  have less: "bytes_less (queue_key (example_queue_item pin_B 1700000005000))
                (queue_key (example_queue_item pin_A 1700000000000))"
    by (simp add: queue_key_older queue_key_newer)
  have neq: "queue_key (example_queue_item pin_B 1700000005000)
               \<noteq> queue_key (example_queue_item pin_A 1700000000000)"
    by (simp add: queue_key_older queue_key_newer)
  have nless: "\<not> bytes_less (queue_key (example_queue_item pin_A 1700000000000))
                (queue_key (example_queue_item pin_B 1700000005000))"
    by (simp add: queue_key_older queue_key_newer)
  have pins: "q_PinID (example_queue_item pin_B 1700000005000) \<noteq> pin_A"
      "q_PinID (example_queue_item pin_A 1700000000000) = pin_A"
    by (simp_all add: example_queue_item_def pin_A_def pin_B_def)
  show ?thesis
    using ts less neq nless pins neq [symmetric]
    by (simp add: GetNextDeployQueueItem_def GetDeployQueueItem_def AddToDeployQueue_def
          empty_db_def)
qed

section \<open>The store's writes\<close>

lemma map_of_pebble_Set: "map_of (pebble_Set k v c) = (map_of c)(k \<mapsto> v)"
  by (induction c) (auto simp: fun_eq_iff)

lemma pebble_Get_pebble_Set: "pebble_Get k (pebble_Set k v c) = Some v"
  by (simp add: pebble_Get_def map_of_pebble_Set)

lemma set_pebble_Set: "set (pebble_Set k v c) \<subseteq> insert (k, v) (set c)"
  by (induction c) (auto split: if_splits)

lemma list_all_pebble_Set:
  "list_all (\<lambda>(k, a). P a) c \<Longrightarrow> P v \<Longrightarrow> list_all (\<lambda>(k, a). P a) (pebble_Set k' v c)"
  using set_pebble_Set [of k' v c] by (auto simp: list_all_iff)

lemma list_all_delete_stale:
  "list_all (\<lambda>(k, a). P a) c \<Longrightarrow> list_all (\<lambda>(k, a). P a) (delete_stale vis f nk c)"
  by (auto simp: list_all_iff delete_stale_def)

lemma set_sort_by_timestamp_desc: "set (sort_by_timestamp_desc xs) = set xs"
proof -
  have ins: "set (insert_by_timestamp a ys) = insert a (set ys)" for a ys
    by (induction ys) auto
  show ?thesis
    unfolding sort_by_timestamp_desc_def by (induction xs) (simp_all add: ins)
qed

lemma history_after_add:
  "pebble_Get f (metaapp_pin_history (addToHistory f app db))
     = Some (sort_by_timestamp_desc
         ((case pebble_Get f (metaapp_pin_history db) of None \<Rightarrow> [] | Some h \<Rightarrow> h) @ [app]))"
  by (simp add: addToHistory_def Let_def pebble_Get_pebble_Set)

lemma history_inv_add:
  assumes "list_all (\<lambda>(k, h). list_all P h) (metaapp_pin_history db)" and "P app"
  shows "list_all (\<lambda>(k, h). list_all P h) (metaapp_pin_history (addToHistory f app db))"
proof -
  let ?old = "case pebble_Get f (metaapp_pin_history db) of None \<Rightarrow> [] | Some h \<Rightarrow> h"
  have "list_all P ?old"
  proof (cases "pebble_Get f (metaapp_pin_history db)")
    case None
    then show ?thesis by simp
  next
    case (Some h)
    then have "(f, h) \<in> set (metaapp_pin_history db)"
      by (simp add: pebble_Get_def map_of_SomeD)
    with assms(1) show ?thesis
      by (auto simp: Some list_all_iff)
  qed
  then have "list_all P (sort_by_timestamp_desc (?old @ [app]))"
    using assms(2) by (simp add: list_all_iff set_sort_by_timestamp_desc)
  then show ?thesis
    using assms(1) list_all_pebble_Set [where P = "list_all P"]
    by (simp add: addToHistory_def Let_def)
qed

lemma stored_app_fields:
  "FirstPinId (stored_app app) = (if FirstPinId app = [] then PinID app else FirstPinId app)"
  "PinID (stored_app app) = PinID app"
  "Timestamp (stored_app app) = Timestamp app"
  "CreatorMetaId (stored_app app) = CreatorMetaId app"
  "Code (stored_app app) = Code app"
  "Content (stored_app app) = Content app"
  by (simp_all add: stored_app_def)

lemma CreateMetaApp_fst: "fst (CreateMetaApp app db) = stored_app app"
  by (simp add: CreateMetaApp_def Let_def)

lemma CreateMetaApp_collections:
  "metaapp_pin (snd (CreateMetaApp app db))
     = pebble_Set (PinID app) (stored_app app) (metaapp_pin db)"
  "metaapp_pin_latest (snd (CreateMetaApp app db))
     = pebble_Set (FirstPinId (stored_app app)) (stored_app app) (metaapp_pin_latest db)"
  "metaapp_pin_history (snd (CreateMetaApp app db))
     = metaapp_pin_history (addToHistory (FirstPinId (stored_app app)) (stored_app app) db)"
  "metaapp_meta_timestamp (snd (CreateMetaApp app db))
     = pebble_Set (CreatorMetaId app @ '':'' @ FormatInt (MaxInt64 - Timestamp app) @ '':''
                   @ FirstPinId (stored_app app)) (stored_app app)
         (delete_stale (in_bounds (CreatorMetaId app @ '':'') ((CreatorMetaId app @ '':'') @ ''~''))
            (FirstPinId (stored_app app))
            (CreatorMetaId app @ '':'' @ FormatInt (MaxInt64 - Timestamp app) @ '':''
               @ FirstPinId (stored_app app))
            (metaapp_meta_timestamp db))"
  "metaapp_timestamp (snd (CreateMetaApp app db))
     = pebble_Set (FormatInt (MaxInt64 - Timestamp app) @ '':'' @ FirstPinId (stored_app app))
         (stored_app app)
         (delete_stale (\<lambda>k. True) (FirstPinId (stored_app app))
            (FormatInt (MaxInt64 - Timestamp app) @ '':'' @ FirstPinId (stored_app app))
            (metaapp_timestamp db))"
  "metaapp_deploy_queue (snd (CreateMetaApp app db)) = metaapp_deploy_queue db"
  "metaapp_deploy_file_content (snd (CreateMetaApp app db)) = metaapp_deploy_file_content db"
  by (simp_all add: CreateMetaApp_def Let_def stored_app_fields addToHistory_def)

section \<open>Every stored record has a first pin id\<close>

text \<open>
  C9. A record with a non-empty pin id that goes through \<open>CreateMetaApp\<close> is written
  with \<open>first_pin_id\<close> set to its own pin id when the field was empty (unchanged
  otherwise), so with a non-empty \<open>first_pin_id\<close>; that record is what the pin, latest,
  history, by-creator and by-time collections hold afterwards under their keys; and when
  every record stored before had a non-empty \<open>first_pin_id\<close>, every stored record has one
  afterwards.
\<close>

theorem CreateMetaApp_first_pin_id_set:
  assumes "PinID app \<noteq> []" and "first_pin_ids_set db"
    and "CreateMetaApp app db = (app', db')"
  shows "FirstPinId app' = (if FirstPinId app = [] then PinID app else FirstPinId app)
    \<and> FirstPinId app' \<noteq> []
    \<and> pebble_Get (PinID app) (metaapp_pin db') = Some app'
    \<and> pebble_Get (FirstPinId app') (metaapp_pin_latest db') = Some app'
    \<and> (\<exists>h. pebble_Get (FirstPinId app') (metaapp_pin_history db') = Some h \<and> app' \<in> set h)
    \<and> pebble_Get (CreatorMetaId app @ '':'' @ FormatInt (MaxInt64 - Timestamp app) @ '':''
                     @ FirstPinId app') (metaapp_meta_timestamp db') = Some app'
    \<and> pebble_Get (FormatInt (MaxInt64 - Timestamp app) @ '':'' @ FirstPinId app')
          (metaapp_timestamp db') = Some app'
    \<and> first_pin_ids_set db'"
proof -
  have app': "app' = stored_app app" and db': "db' = snd (CreateMetaApp app db)"
    using assms(3) CreateMetaApp_fst [of app db] by simp_all
  have ne: "FirstPinId (stored_app app) \<noteq> []"
    using assms(1) by (simp add: stored_app_fields)
  have hist: "\<exists>h. pebble_Get (FirstPinId app') (metaapp_pin_history db') = Some h \<and> app' \<in> set h"
    by (simp add: app' db' CreateMetaApp_collections history_after_add set_sort_by_timestamp_desc)
  have inv: "first_pin_ids_set db'"
    using assms(2) ne unfolding first_pin_ids_set_def db' CreateMetaApp_collections
    by (intro conjI list_all_pebble_Set list_all_delete_stale history_inv_add) simp_all
  show ?thesis
    using ne hist inv
    by (simp add: app' db' CreateMetaApp_collections pebble_Get_pebble_Set stored_app_fields)
qed

theorem CreateMetaApp_first_pin_id_set_witness:
  "PinID (example_app pin_A [] ''create'' ''/protocols/metaapp'') \<noteq> []
   \<and> first_pin_ids_set empty_db
   \<and> FirstPinId (example_app pin_A [] ''create'' ''/protocols/metaapp'') = []
   \<and> FirstPinId (fst (CreateMetaApp (example_app pin_A [] ''create'' ''/protocols/metaapp'') empty_db))
       = pin_A
   \<and> first_pin_ids_set
       (snd (CreateMetaApp (example_app pin_A [] ''create'' ''/protocols/metaapp'') empty_db))"
proof -
  let ?app = "example_app pin_A [] ''create'' ''/protocols/metaapp''"
  have h1: "PinID ?app \<noteq> []"
    by (simp add: example_app_def build_MetaApp_def example_pin_def pin_A_def)
  have h2: "first_pin_ids_set empty_db"
    by (simp add: first_pin_ids_set_def empty_db_def)
  have h3: "CreateMetaApp ?app empty_db
              = (fst (CreateMetaApp ?app empty_db), snd (CreateMetaApp ?app empty_db))"
    by simp
  have fields: "FirstPinId ?app = []" "PinID ?app = pin_A"
    by (simp_all add: example_app_def build_MetaApp_def example_pin_def)
  show ?thesis
    using CreateMetaApp_first_pin_id_set [OF h1 h2 h3] h1 h2 fields by simp
qed

section \<open>The parent walk\<close>

lemma find_revisit:
  "pinID \<in> visited \<Longrightarrow>
   findFirstPinIDRecursive db pinID visited = Inl (''circular reference detected for pinID: '' @ pinID)"
  by (simp add: findFirstPinIDRecursive.simps)

lemma find_absent:
  "pinID \<notin> visited \<Longrightarrow> GetMetaAppByPinID pinID db = Inl e \<Longrightarrow>
   findFirstPinIDRecursive db pinID visited = Inl (''MetaApp not found for pinID '' @ pinID)"
  by (simp add: findFirstPinIDRecursive.simps)

lemma find_hop:
  "pinID \<notin> visited \<Longrightarrow> parent_hop db pinID = Some q \<Longrightarrow>
   findFirstPinIDRecursive db pinID visited = findFirstPinIDRecursive db q (insert pinID visited)"
  by (subst findFirstPinIDRecursive.simps)
    (auto simp: parent_hop_def split: sum.splits if_splits)

lemma absent_no_hop: "GetMetaAppByPinID p db = Inl e \<Longrightarrow> parent_hop db p = None"
  by (simp add: parent_hop_def)

lemma chain_to_absent:
  assumes "parent_chain db (p # ps)" and "distinct (p # ps)" and "set (p # ps) \<inter> visited = {}"
    and "GetMetaAppByPinID (last (p # ps)) db = Inl e"
  shows "findFirstPinIDRecursive db p visited
           = Inl (''MetaApp not found for pinID '' @ last (p # ps))"
  using assms
proof (induction ps arbitrary: p visited)
  case Nil
  then show ?case by (simp add: find_absent)
next
  case (Cons q qs)
  from Cons.prems have hop: "parent_hop db p = Some q" and nv: "p \<notin> visited"
    by auto
  have "findFirstPinIDRecursive db q (insert p visited)
          = Inl (''MetaApp not found for pinID '' @ last (q # qs))"
    using Cons.prems by (intro Cons.IH) auto
  then show ?case
    using find_hop [OF nv hop] by simp
qed

lemma chain_to_revisit:
  assumes "parent_chain db (p # ps)" and "distinct (p # ps)" and "set (p # ps) \<inter> visited = {}"
    and "parent_hop db (last (p # ps)) = Some q" and "q \<in> set (p # ps) \<union> visited"
  shows "findFirstPinIDRecursive db p visited
           = Inl (''circular reference detected for pinID: '' @ q)"
  using assms
proof (induction ps arbitrary: p visited)
  case Nil
  then have nv: "p \<notin> visited" and hop: "parent_hop db p = Some q" and "q \<in> insert p visited"
    by auto
  then show ?case
    using find_hop [OF nv hop] by (simp add: find_revisit)
next
  case (Cons r rs)
  from Cons.prems have hop: "parent_hop db p = Some r" and nv: "p \<notin> visited"
    by auto
  have "findFirstPinIDRecursive db r (insert p visited)
          = Inl (''circular reference detected for pinID: '' @ q)"
    using Cons.prems by (intro Cons.IH) auto
  then show ?case
    using find_hop [OF nv hop] by simp
qed

text \<open>A walk that ends at an absent pin id is determined by its start and repeats no pin id.\<close>

lemma chain_suffix: "parent_chain db (xs @ ys) \<Longrightarrow> parent_chain db ys"
  by (induction db xs rule: parent_chain.induct) (auto elim: parent_chain.elims)

lemma chain_unique:
  assumes "parent_chain db (p # xs)" and "GetMetaAppByPinID (last (p # xs)) db = Inl e"
    and "parent_chain db (p # ys)" and "GetMetaAppByPinID (last (p # ys)) db = Inl e'"
  shows "xs = ys"
  using assms
proof (induction xs arbitrary: p ys)
  case Nil
  then have "parent_hop db p = None" by (simp add: absent_no_hop)
  with Nil.prems(3) show ?case by (cases ys) auto
next
  case (Cons q qs)
  then have hop: "parent_hop db p = Some q" by simp
  show ?case
  proof (cases ys)
    case Nil
    with Cons.prems(4) have "parent_hop db p = None" by (simp add: absent_no_hop)
    with hop show ?thesis by simp
  next
    case (Cons r rs)
    with Cons.prems(3) hop have "r = q" by simp
    moreover have "qs = rs"
      using Cons.prems Cons \<open>r = q\<close> by (intro Cons.IH [of q rs]) auto
    ultimately show ?thesis using Cons by simp
  qed
qed

lemma chain_to_absent_distinct:
  assumes "parent_chain db (p # ps)" and "GetMetaAppByPinID (last (p # ps)) db = Inl e"
  shows "distinct (p # ps)"
  using assms
proof (induction ps arbitrary: p)
  case Nil
  then show ?case by simp
next
  case (Cons q qs)
  have tail: "distinct (q # qs)"
    using Cons.prems by (intro Cons.IH) auto
  have "p \<notin> set (q # qs)"
  proof
    assume "p \<in> set (q # qs)"
    then obtain as bs where split: "q # qs = as @ p # bs"
      by (meson split_list)
    have "parent_chain db ((p # as) @ p # bs)"
      using Cons.prems(1) split by simp
    then have c2: "parent_chain db (p # bs)"
      by (rule chain_suffix)
    have l2: "GetMetaAppByPinID (last (p # bs)) db = Inl e"
      using Cons.prems(2) split by (metis last_ConsR last_appendR list.distinct(1))
    have "q # qs = bs"
      using chain_unique [OF Cons.prems(1) Cons.prems(2) c2 l2] .
    with split show False
      by (metis append_self_conv2 length_append length_Cons add_Suc_right less_add_Suc2 less_irrefl_nat)
  qed
  with tail show ?case by simp
qed

text \<open>A new \<open>modify\<close> pin whose resolution fails leaves the database as it was.\<close>

lemma handlePin_modify_unresolved:
  assumes "m_Operation metaData = ''modify''" and "m_Path metaData \<noteq> []"
    and "GetMetaAppByPinID (m_PinID metaData) db = Inl e"
    and "extractFirstPinIDFromOriginalPath db (m_Path metaData) = Inl err"
  shows "handlePin env now height timestamp db metaData = db"
  using assms by (simp add: handlePin_def)

lemma seed_pins_two:
  "PinID a \<noteq> PinID b \<Longrightarrow>
   GetMetaAppByPinID k (seed_pins [a, b])
     = (if k = PinID a then Inr a else if k = PinID b then Inr b else Inl ErrNotFound)"
  by (simp add: seed_pins_def empty_db_def GetMetaAppByPinID_def pebble_Get_def
        map_of_pebble_Set)

lemma seed_pins_one:
  "GetMetaAppByPinID k (seed_pins [a]) = (if k = PinID a then Inr a else Inl ErrNotFound)"
  by (simp add: seed_pins_def empty_db_def GetMetaAppByPinID_def pebble_Get_def)

lemma example_app_fields:
  "PinID (example_app pinID firstPinID operation path) = pinID"
  "FirstPinId (example_app pinID firstPinID operation path) = firstPinID"
  "Operation (example_app pinID firstPinID operation path) = operation"
  "Path (example_app pinID firstPinID operation path) = path"
  by (simp_all add: example_app_def build_MetaApp_def example_pin_def)

lemma example_pin_fields:
  "m_PinID (example_pin pinID operation path) = pinID"
  "m_Operation (example_pin pinID operation path) = operation"
  "m_Path (example_pin pinID operation path) = path"
  by (simp_all add: example_pin_def)

lemma pins_differ: "pin_A \<noteq> pin_B" "pin_A \<noteq> pin_C" "pin_B \<noteq> pin_C" "pin_A \<noteq> []" "pin_B \<noteq> []"
  by (simp_all add: pin_A_def pin_B_def pin_C_def)

lemma currentPinID_at: "currentPinID (CHR ''@'' # p) = p"
  by (simp add: currentPinID_def HasPrefix_def TrimPrefix_def)

section \<open>A modify whose ancestor is absent is aborted\<close>

text \<open>
  C4. Take a \<open>modify\<close> pin with a non-empty path that is not yet stored, so that its
  \<open>first_pin_id\<close> is resolved, and let the walk from the pin id its path names lead,
  hop by hop, to a pin id that is not in the pin collection. Then the resolution returns
  the "MetaApp not found" error for that pin id, and handling the pin leaves the whole
  database unchanged: no record in any collection, no deploy queue entry.
\<close>

theorem modify_with_absent_ancestor_aborted:
  assumes "m_Operation metaData = ''modify''" and "m_Path metaData \<noteq> []"
    and "GetMetaAppByPinID (m_PinID metaData) db = Inl e"
    and "currentPinID (m_Path metaData) \<noteq> []"
    and "parent_chain db (currentPinID (m_Path metaData) # ps)"
    and "GetMetaAppByPinID (last (currentPinID (m_Path metaData) # ps)) db = Inl e'"
  shows "extractFirstPinIDFromOriginalPath db (m_Path metaData)
           = Inl (''MetaApp not found for pinID '' @ last (currentPinID (m_Path metaData) # ps))
         \<and> handlePin env now height timestamp db metaData = db"
proof -
  let ?p = "currentPinID (m_Path metaData)"
  have "distinct (?p # ps)"
    using assms(5,6) by (rule chain_to_absent_distinct)
  then have "findFirstPinIDRecursive db ?p {}
               = Inl (''MetaApp not found for pinID '' @ last (?p # ps))"
    using assms(5,6) by (intro chain_to_absent) simp_all
  then have res: "extractFirstPinIDFromOriginalPath db (m_Path metaData)
               = Inl (''MetaApp not found for pinID '' @ last (?p # ps))"
    using assms(2,4) by (simp add: extractFirstPinIDFromOriginalPath_def)
  with assms(1-3) have "handlePin env now height timestamp db metaData = db"
    by (intro handlePin_modify_unresolved)
  with res show ?thesis by simp
qed

theorem modify_with_absent_ancestor_aborted_witness:
  "GetMetaAppByPinID pin_C (seed_pins [example_app pin_B pin_A ''modify'' (CHR ''@'' # pin_A)])
     = Inl ErrNotFound
   \<and> parent_chain (seed_pins [example_app pin_B pin_A ''modify'' (CHR ''@'' # pin_A)]) [pin_B, pin_A]
   \<and> GetMetaAppByPinID pin_A (seed_pins [example_app pin_B pin_A ''modify'' (CHR ''@'' # pin_A)])
     = Inl ErrNotFound
   \<and> extractFirstPinIDFromOriginalPath
       (seed_pins [example_app pin_B pin_A ''modify'' (CHR ''@'' # pin_A)]) (CHR ''@'' # pin_B)
     = Inl (''MetaApp not found for pinID '' @ pin_A)
   \<and> handlePin example_env 0 0 1700000009000
       (seed_pins [example_app pin_B pin_A ''modify'' (CHR ''@'' # pin_A)])
       (example_pin pin_C ''modify'' (CHR ''@'' # pin_B))
     = seed_pins [example_app pin_B pin_A ''modify'' (CHR ''@'' # pin_A)]"
proof -
  let ?db = "seed_pins [example_app pin_B pin_A ''modify'' (CHR ''@'' # pin_A)]"
  let ?pin = "example_pin pin_C ''modify'' (CHR ''@'' # pin_B)"
  have h1: "m_Operation ?pin = ''modify''" and h2: "m_Path ?pin \<noteq> []"
    by (simp_all add: example_pin_fields)
  have h3: "GetMetaAppByPinID (m_PinID ?pin) ?db = Inl ErrNotFound"
    using pins_differ by (simp add: example_pin_fields seed_pins_one example_app_fields)
  have h4: "currentPinID (m_Path ?pin) \<noteq> []"
    using pins_differ by (simp add: example_pin_fields currentPinID_at)
  have absent: "GetMetaAppByPinID pin_A ?db = Inl ErrNotFound"
    using pins_differ by (simp add: seed_pins_one example_app_fields)
  have h5: "parent_chain ?db (currentPinID (m_Path ?pin) # [pin_A])"
    using pins_differ
    by (simp add: example_pin_fields currentPinID_at parent_hop_def seed_pins_one
          example_app_fields)
  have h6: "GetMetaAppByPinID (last (currentPinID (m_Path ?pin) # [pin_A])) ?db = Inl ErrNotFound"
    using absent by simp
  show ?thesis
    using modify_with_absent_ancestor_aborted [OF h1 h2 h3 h4 h5 h6, of example_env 0 0 1700000009000]
      h3 h5 absent
    by (simp add: example_pin_fields currentPinID_at)
qed

section \<open>A circular modify graph is refused\<close>

text \<open>
  C7. Take a \<open>modify\<close> pin with a non-empty path that is not yet stored, and let the
  walk from the pin id its path names pass through pin ids that are all different and
  then lead to a pin id it has already seen. Then the resolution returns the "circular
  reference detected" error for that pin id, and handling the pin leaves the whole
  database unchanged: no record is written for it.
\<close>

theorem modify_with_circular_parents_dropped:
  assumes "m_Operation metaData = ''modify''" and "m_Path metaData \<noteq> []"
    and "GetMetaAppByPinID (m_PinID metaData) db = Inl e"
    and "currentPinID (m_Path metaData) \<noteq> []"
    and "parent_chain db (currentPinID (m_Path metaData) # ps)"
    and "distinct (currentPinID (m_Path metaData) # ps)"
    and "parent_hop db (last (currentPinID (m_Path metaData) # ps)) = Some q"
    and "q \<in> set (currentPinID (m_Path metaData) # ps)"
  shows "extractFirstPinIDFromOriginalPath db (m_Path metaData)
           = Inl (''circular reference detected for pinID: '' @ q)
         \<and> handlePin env now height timestamp db metaData = db"
proof -
  let ?p = "currentPinID (m_Path metaData)"
  have "findFirstPinIDRecursive db ?p {} = Inl (''circular reference detected for pinID: '' @ q)"
    using assms(5-8) by (intro chain_to_revisit) simp_all
  then have res: "extractFirstPinIDFromOriginalPath db (m_Path metaData)
               = Inl (''circular reference detected for pinID: '' @ q)"
    using assms(2,4) by (simp add: extractFirstPinIDFromOriginalPath_def)
  with assms(1-3) have "handlePin env now height timestamp db metaData = db"
    by (intro handlePin_modify_unresolved)
  with res show ?thesis by simp
qed

theorem modify_with_circular_parents_dropped_witness:
  "GetMetaAppByPinID pin_C
     (seed_pins [example_app pin_A pin_B ''modify'' (CHR ''@'' # pin_B),
                 example_app pin_B pin_A ''modify'' (CHR ''@'' # pin_A)]) = Inl ErrNotFound
   \<and> parent_chain
       (seed_pins [example_app pin_A pin_B ''modify'' (CHR ''@'' # pin_B),
                   example_app pin_B pin_A ''modify'' (CHR ''@'' # pin_A)]) [pin_A, pin_B]
   \<and> parent_hop
       (seed_pins [example_app pin_A pin_B ''modify'' (CHR ''@'' # pin_B),
                   example_app pin_B pin_A ''modify'' (CHR ''@'' # pin_A)]) pin_B = Some pin_A
   \<and> extractFirstPinIDFromOriginalPath
       (seed_pins [example_app pin_A pin_B ''modify'' (CHR ''@'' # pin_B),
                   example_app pin_B pin_A ''modify'' (CHR ''@'' # pin_A)]) (CHR ''@'' # pin_A)
     = Inl (''circular reference detected for pinID: '' @ pin_A)
   \<and> handlePin example_env 0 0 1700000009000
       (seed_pins [example_app pin_A pin_B ''modify'' (CHR ''@'' # pin_B),
                   example_app pin_B pin_A ''modify'' (CHR ''@'' # pin_A)])
       (example_pin pin_C ''modify'' (CHR ''@'' # pin_A))
     = seed_pins [example_app pin_A pin_B ''modify'' (CHR ''@'' # pin_B),
                  example_app pin_B pin_A ''modify'' (CHR ''@'' # pin_A)]"
proof -
  let ?db = "seed_pins [example_app pin_A pin_B ''modify'' (CHR ''@'' # pin_B),
                        example_app pin_B pin_A ''modify'' (CHR ''@'' # pin_A)]"
  let ?pin = "example_pin pin_C ''modify'' (CHR ''@'' # pin_A)"
  have look: "GetMetaAppByPinID k ?db
      = (if k = pin_A then Inr (example_app pin_A pin_B ''modify'' (CHR ''@'' # pin_B))
         else if k = pin_B then Inr (example_app pin_B pin_A ''modify'' (CHR ''@'' # pin_A))
         else Inl ErrNotFound)" for k
    using pins_differ by (simp add: seed_pins_two example_app_fields)
  have h1: "m_Operation ?pin = ''modify''" and h2: "m_Path ?pin \<noteq> []"
    by (simp_all add: example_pin_fields)
  have h3: "GetMetaAppByPinID (m_PinID ?pin) ?db = Inl ErrNotFound"
    using pins_differ by (simp add: example_pin_fields look)
  have h4: "currentPinID (m_Path ?pin) \<noteq> []"
    using pins_differ by (simp add: example_pin_fields currentPinID_at)
  have hopA: "parent_hop ?db pin_A = Some pin_B" and hopB: "parent_hop ?db pin_B = Some pin_A"
    using pins_differ by (simp_all add: parent_hop_def look example_app_fields)
  have h5: "parent_chain ?db (currentPinID (m_Path ?pin) # [pin_B])"
    using hopA by (simp add: example_pin_fields currentPinID_at)
  have h6: "distinct (currentPinID (m_Path ?pin) # [pin_B])"
    using pins_differ by (simp add: example_pin_fields currentPinID_at)
  have h7: "parent_hop ?db (last (currentPinID (m_Path ?pin) # [pin_B])) = Some pin_A"
    using hopB by simp
  have h8: "pin_A \<in> set (currentPinID (m_Path ?pin) # [pin_B])"
    by (simp add: example_pin_fields currentPinID_at)
  show ?thesis
    using modify_with_circular_parents_dropped
            [OF h1 h2 h3 h4 h5 h6 h7 h8, of example_env 0 0 1700000009000]
      h3 hopA hopB
    by (simp add: example_pin_fields currentPinID_at)
qed

section \<open>Ingesting a pin\<close>

lemma isMetaAppPath_protocol: "isMetaAppPath ''/protocols/metaapp'' = (True, False)"
  by (simp add: isMetaAppPath_def ProtocolList_def ToLower_def lower_char_def HasPrefix_def)

lemma addToDeployQueue_collections:
  "metaapp_pin (addToDeployQueue now a db) = metaapp_pin db"
  "metaapp_pin_latest (addToDeployQueue now a db) = metaapp_pin_latest db"
  "metaapp_pin_history (addToDeployQueue now a db) = metaapp_pin_history db"
  "metaapp_meta_timestamp (addToDeployQueue now a db) = metaapp_meta_timestamp db"
  "metaapp_timestamp (addToDeployQueue now a db) = metaapp_timestamp db"
  "metaapp_deploy_file_content (addToDeployQueue now a db) = metaapp_deploy_file_content db"
  by (simp_all add: addToDeployQueue_def AddToDeployQueue_def Let_def)

lemma build_MetaApp_fields:
  "PinID (build_MetaApp env now m proto f addr h t) = m_PinID m"
  "FirstPinId (build_MetaApp env now m proto f addr h t) = f"
  "BlockHeight (build_MetaApp env now m proto f addr h t) = h"
  by (simp_all add: build_MetaApp_def)

lemma build_MetaApp_height:
  "(build_MetaApp env now m proto f addr h t)\<lparr>BlockHeight := h'\<rparr>
     = build_MetaApp env now m proto f addr h' t"
  by (simp add: build_MetaApp_def)

lemma processMetaAppContent_db:
  "json_Unmarshal env (m_Content m) = Inr proto \<Longrightarrow>
   snd (processMetaAppContent env now m h t db)
     = addToDeployQueue now
         (stored_app (build_MetaApp env now m proto (m_PinID m) (resolve_creator_address env m) h t))
         (snd (CreateMetaApp
                 (build_MetaApp env now m proto (m_PinID m) (resolve_creator_address env m) h t) db))"
  using CreateMetaApp_fst
  by (simp add: processMetaAppContent_def Let_def case_prod_beta)



lemma empty_db_collections:
  "metaapp_pin empty_db = []" "metaapp_pin_latest empty_db = []"
  "metaapp_pin_history empty_db = []" "metaapp_meta_timestamp empty_db = []"
  "metaapp_timestamp empty_db = []" "metaapp_deploy_file_content empty_db = []"
  "metaapp_deploy_queue empty_db = []"
  by (simp_all add: empty_db_def)

lemma pebble_Get_list:
  "pebble_Get k [] = None"
  "pebble_Get k ((k', v) # c) = (if k = k' then Some v else pebble_Get k c)"
  by (simp_all add: pebble_Get_def)

lemma handlePin_create_new:
  assumes "isMetaAppPath (m_Path m) = (True, False)" and "GetMetaAppByPinID (m_PinID m) db = Inl e"
    and "m_Operation m = ''create''"
  shows "handlePin env now h t db m = snd (processMetaAppContent env now m h t db)"
  using assms by (simp add: handlePin_def)

lemma handlePin_existing:
  assumes "fst (isMetaAppPath (m_Path m))" and "GetMetaAppByPinID (m_PinID m) db = Inr a"
  shows "handlePin env now h t db m
           = (if sint (BlockHeight a) < sint h \<and> 0 < sint h
              then snd (CreateMetaApp (a\<lparr>BlockHeight := h\<rparr>) db) else db)"
  using assms by (simp add: handlePin_def UpdateMetaApp_def)

section \<open>A pin seen in the mempool and then in a block is listed twice in its history\<close>

text \<open>
  C2. The specification: a second arrival of a stored pin id adds no entry to the history of its
  \<open>first_pin_id\<close>, and mempool then block gives the state of block alone. On the code:
  a \<open>create\<close> pin ingested at height 0 and then at height 100, with the same timestamp
  and clock, has two history entries for its pin id, where ingesting it at height 100
  alone gives one; the pin collection is the same in both runs. The height bump goes
  through \<open>UpdateMetaApp\<close>, that is \<open>CreateMetaApp\<close>, whose \<open>addToHistory\<close> appends.
\<close>

theorem mempool_then_block_duplicates_history:
  "map_option (map PinID)
     (pebble_Get pin_A
        (metaapp_pin_history
           (handlePin example_env 0 100 1700000000000
              (handlePin example_env 0 0 1700000000000 empty_db
                 (example_pin pin_A ''create'' ''/protocols/metaapp''))
              (example_pin pin_A ''create'' ''/protocols/metaapp''))))
     = Some [pin_A, pin_A]
   \<and> map_option (map PinID)
       (pebble_Get pin_A
          (metaapp_pin_history
             (handlePin example_env 0 100 1700000000000 empty_db
                (example_pin pin_A ''create'' ''/protocols/metaapp''))))
     = Some [pin_A]
   \<and> metaapp_pin
       (handlePin example_env 0 100 1700000000000
          (handlePin example_env 0 0 1700000000000 empty_db
             (example_pin pin_A ''create'' ''/protocols/metaapp''))
          (example_pin pin_A ''create'' ''/protocols/metaapp''))
     = metaapp_pin
         (handlePin example_env 0 100 1700000000000 empty_db
            (example_pin pin_A ''create'' ''/protocols/metaapp''))"
proof -
  let ?pin = "example_pin pin_A ''create'' ''/protocols/metaapp''"
  let ?app = "\<lambda>h. build_MetaApp example_env 0 ?pin example_proto pin_A
                     (resolve_creator_address example_env ?pin) h 1700000000000"
  have path: "isMetaAppPath (m_Path ?pin) = (True, False)"
    by (simp add: example_pin_fields isMetaAppPath_protocol)
  have json: "json_Unmarshal example_env (m_Content ?pin) = Inr example_proto"
    by (simp add: example_env_def)
  have absent: "GetMetaAppByPinID (m_PinID ?pin) empty_db = Inl ErrNotFound"
    by (simp add: GetMetaAppByPinID_def pebble_Get_def empty_db_collections)
  have stored: "stored_app (?app h) = ?app h" for h
    using pins_differ by (simp add: stored_app_def build_MetaApp_fields)
  have first: "handlePin example_env 0 h 1700000000000 empty_db ?pin
                 = addToDeployQueue 0 (?app h) (snd (CreateMetaApp (?app h) empty_db))" for h
    using handlePin_create_new [OF path absent] processMetaAppContent_db [OF json]
    by (simp add: example_pin_fields stored)
  have pin1: "metaapp_pin (handlePin example_env 0 h 1700000000000 empty_db ?pin)
                = [(pin_A, ?app h)]" for h
    by (simp add: first addToDeployQueue_collections CreateMetaApp_collections stored
          build_MetaApp_fields example_pin_fields empty_db_collections)
  have hist1: "metaapp_pin_history (handlePin example_env 0 h 1700000000000 empty_db ?pin)
                = [(pin_A, [?app h])]" for h
    by (simp add: first addToDeployQueue_collections CreateMetaApp_collections stored
          build_MetaApp_fields addToHistory_def pebble_Get_list sort_by_timestamp_desc_def
          empty_db_collections)
  have found: "GetMetaAppByPinID (m_PinID ?pin)
                 (handlePin example_env 0 0 1700000000000 empty_db ?pin) = Inr (?app 0)"
    by (simp add: GetMetaAppByPinID_def pebble_Get_def pin1 example_pin_fields)
  have second: "handlePin example_env 0 100 1700000000000
                  (handlePin example_env 0 0 1700000000000 empty_db ?pin) ?pin
                = snd (CreateMetaApp (?app 100)
                         (handlePin example_env 0 0 1700000000000 empty_db ?pin))"
    using handlePin_existing [OF _ found, of example_env 0 100 1700000000000] path
    by (simp add: build_MetaApp_fields build_MetaApp_height)
  have hist2: "pebble_Get pin_A
                 (metaapp_pin_history
                    (handlePin example_env 0 100 1700000000000
                       (handlePin example_env 0 0 1700000000000 empty_db ?pin) ?pin))
               = Some (sort_by_timestamp_desc [?app 0, ?app 100])"
    by (simp add: second CreateMetaApp_collections stored build_MetaApp_fields
          history_after_add hist1 pebble_Get_list)
  have sorted: "map PinID (sort_by_timestamp_desc [?app 0, ?app 100]) = [pin_A, pin_A]"
    by (simp add: sort_by_timestamp_desc_def build_MetaApp_fields example_pin_fields)
  have pin2: "metaapp_pin
                (handlePin example_env 0 100 1700000000000
                   (handlePin example_env 0 0 1700000000000 empty_db ?pin) ?pin)
              = [(pin_A, ?app 100)]"
    by (simp add: second CreateMetaApp_collections stored build_MetaApp_fields pin1
          example_pin_fields)
  show ?thesis
    by (simp add: hist2 sorted hist1 pin1 pin2 pebble_Get_list build_MetaApp_fields
          example_pin_fields)
qed

section \<open>What a deployment and a tick change\<close>

text \<open>
  A deployment that fails leaves the database as it was, except at the download step,
  where it first writes the \<open>failed\<close> result with the download's error message.
\<close>

lemma deployMetaApp_failure:
  assumes "deployMetaApp env now item db fs = (Some err, db1, fs1)"
  shows "db1 = db
     \<or> (\<exists>m metaApp. GetMetaAppByPinID (q_PinID item) db = Inr metaApp
           \<and> err = ''failed to download file: '' @ m
           \<and> db1 = CreateOrUpdateDeployFileContent
                     (deploy_content now metaApp item (app_deploy_dir env metaApp) ''failed'' m) db)"
  using assms
  by (auto simp: deployMetaApp_def Let_def split: sum.splits prod.splits option.splits if_splits)

lemma deployMetaApp_success:
  assumes "deployMetaApp env now item db fs = (None, db1, fs1)"
  shows "\<exists>metaApp. GetMetaAppByPinID (q_PinID item) db = Inr metaApp
           \<and> db1 = CreateOrUpdateDeployFileContent
                     (deploy_content now metaApp item (app_deploy_dir env metaApp) ''completed'' []) db"
  using assms
  by (auto simp: deployMetaApp_def Let_def split: sum.splits prod.splits option.splits if_splits)

lemma CreateOrUpdateDeployFileContent_collections:
  "metaapp_pin (CreateOrUpdateDeployFileContent c db) = metaapp_pin db"
  "metaapp_pin_latest (CreateOrUpdateDeployFileContent c db) = metaapp_pin_latest db"
  "metaapp_deploy_queue (CreateOrUpdateDeployFileContent c db) = metaapp_deploy_queue db"
  by (simp_all add: CreateOrUpdateDeployFileContent_def)

lemma deployMetaApp_keeps:
  assumes "deployMetaApp env now item db fs = (r, db1, fs1)"
  shows "metaapp_pin db1 = metaapp_pin db \<and> metaapp_deploy_queue db1 = metaapp_deploy_queue db
       \<and> metaapp_pin_latest db1 = metaapp_pin_latest db"
proof (cases r)
  case None
  with assms deployMetaApp_success [of env now item db fs db1 fs1] show ?thesis
    by (auto simp: CreateOrUpdateDeployFileContent_collections)
next
  case (Some err)
  with assms deployMetaApp_failure [of env now item db fs err db1 fs1] show ?thesis
    by (auto simp: CreateOrUpdateDeployFileContent_collections)
qed


lemma tick_failure:
  assumes "metaapp_deploy_queue db = (k, item) # rest"
    and "deployMetaApp env now item db fs = (Some err, db1, fs1)"
  shows "processNextDeployItem env now db fs
           = (Some err,
              db1\<lparr>metaapp_deploy_queue :=
                    (if sint (q_TryCount item + 1) \<ge> maxRetryCount then rest
                     else (k, item\<lparr>q_TryCount := q_TryCount item + 1\<rparr>) # rest)\<rparr>,
              fs1)"
proof -
  have q1: "metaapp_deploy_queue db1 = (k, item) # rest"
    using deployMetaApp_keeps [OF assms(2)] assms(1) by simp
  show ?thesis
    using assms q1
    by (simp add: processNextDeployItem_def GetNextDeployQueueItem_def Let_def
          RemoveFromDeployQueue_def UpdateDeployQueueItem_def)
qed


section \<open>At most one queue entry per pin id\<close>






















section \<open>The example deployment, step by step\<close>

lemma example_store_collections:
  "metaapp_pin (example_store item) = [(pin_A, example_app pin_A pin_A ''create'' ''/protocols/metaapp'')]"
  "metaapp_deploy_queue (example_store item) = [(queue_key item, item)]"
  "metaapp_deploy_file_content (example_store item) = []"
  by (simp_all add: example_store_def AddToDeployQueue_def seed_pins_def empty_db_collections
        example_app_fields)

lemma example_store_record:
  "GetMetaAppByPinID pin_A (example_store item)
     = Inr (example_app pin_A pin_A ''create'' ''/protocols/metaapp'')"
  by (simp add: GetMetaAppByPinID_def example_store_collections pebble_Get_list)

lemma example_dir:
  "app_deploy_dir (example_deploy_env info files) (example_app pin_A pin_A operation path)
     = ''/data/deploy/'' @ pin_A"
  by (simp add: app_deploy_dir_def example_deploy_env_def example_app_fields filepath_Join_def
        filepath_Clean_def HasPrefix_def pin_A_def)

lemma example_prepare:
  "prepare_deploy_dir (example_deploy_env info files) (''/data/deploy/'' @ pin_A) []
     = (None, [(''/data/deploy/'' @ pin_A, DirNode), (''/data/deploy'', DirNode),
               (''/data'', DirNode)])"
  by (simp add: prepare_deploy_dir_def fs_lookup_def os_MkdirAll_def example_deploy_env_def
        is_dir_def pin_A_def)

lemma example_ref_valid: "isValidMetafilePinID (''metafile://'' @ pin_A)"
  by (simp add: isValidMetafilePinID_def HasPrefix_def TrimPrefix_def match_pin_id_def
        is_lower_hex_def is_digit_def pin_A_def)

lemma example_item_fields:
  "q_PinID (example_queue_item p t) = p"
  "code_or_content (q_Code (example_queue_item p t)) (q_Content (example_queue_item p t))
     = ''metafile://'' @ p"
  "sint (q_TryCount (example_queue_item p t)) = 0"
  "q_TryCount (example_queue_item p t) = 0"
  by (simp_all add: example_queue_item_def code_or_content_def)

section \<open>Retries\<close>

lemma deployMetaApp_invalid_ref:
  assumes "GetMetaAppByPinID (q_PinID item) db = Inr metaApp"
    and "\<not> isValidMetafilePinID (code_or_content (q_Code item) (q_Content item))"
  shows "\<exists>e fs1. deployMetaApp env now item db fs = (Some e, db, fs1)"
  using assms
  by (auto simp: deployMetaApp_def Let_def split: prod.splits option.splits)

lemma deployMetaApp_download_failed:
  assumes "GetMetaAppByPinID (q_PinID item) db = Inr metaApp"
    and "prepare_deploy_dir env (app_deploy_dir env metaApp) fs = (None, fs1)"
    and "isValidMetafilePinID (code_or_content (q_Code item) (q_Content item))"
    and "downloadFileFromPinID env (code_or_content (q_Code item) (q_Content item))
           (app_deploy_dir env metaApp) fs1 = (Inl m, fs2)"
  shows "deployMetaApp env now item db fs
           = (Some (''failed to download file: '' @ m),
              CreateOrUpdateDeployFileContent
                (deploy_content now metaApp item (app_deploy_dir env metaApp) ''failed'' m) db,
              fs2)"
proof -
  have "code_or_content (q_Code item) (q_Content item) \<noteq> []"
    using assms(3) by (auto simp: isValidMetafilePinID_def HasPrefix_def)
  with assms show ?thesis
    by (simp add: deployMetaApp_def Let_def)
qed

lemma GetDeployFileContent_written:
  "GetDeployFileContent (d_PinID c) (CreateOrUpdateDeployFileContent c db) = Inr c"
  by (simp add: GetDeployFileContent_def CreateOrUpdateDeployFileContent_def
        pebble_Get_pebble_Set)

text \<open>
  C6. The specification: at the third failure the item is removed and a \<open>failed\<close> result with
  the last error is written. On the code: an item whose artifact reference is not a
  \<open>metafile://\<close> pin id (here the code field \<open>app.zip\<close>) and that has failed twice fails
  again, is removed from the queue, and no deploy result exists for its pin id.
\<close>

theorem third_failure_without_result:
  "fst (processNextDeployItem (example_deploy_env example_info []) 0
          (example_store ((example_queue_item pin_A 1700000000000)
                            \<lparr>q_Code := ''app.zip'', q_TryCount := 2\<rparr>)) []) \<noteq> None
   \<and> metaapp_deploy_queue
       (fst (snd (processNextDeployItem (example_deploy_env example_info []) 0
          (example_store ((example_queue_item pin_A 1700000000000)
                            \<lparr>q_Code := ''app.zip'', q_TryCount := 2\<rparr>)) []))) = []
   \<and> GetDeployFileContent pin_A
       (fst (snd (processNextDeployItem (example_deploy_env example_info []) 0
          (example_store ((example_queue_item pin_A 1700000000000)
                            \<lparr>q_Code := ''app.zip'', q_TryCount := 2\<rparr>)) []))) = Inl ErrNotFound"
proof -
  let ?item = "(example_queue_item pin_A 1700000000000)\<lparr>q_Code := ''app.zip'', q_TryCount := 2\<rparr>"
  let ?env = "example_deploy_env example_info []"
  have pin: "q_PinID ?item = pin_A" and count: "sint (q_TryCount ?item + 1) = 3"
    by (simp_all add: example_queue_item_def)
  have bad: "\<not> isValidMetafilePinID (code_or_content (q_Code ?item) (q_Content ?item))"
    by (simp add: code_or_content_def isValidMetafilePinID_def HasPrefix_def)
  obtain e fs1 where dep: "deployMetaApp ?env 0 ?item (example_store ?item) [] 
                             = (Some e, example_store ?item, fs1)"
    using deployMetaApp_invalid_ref [OF _ bad, of "example_store ?item"]
      example_store_record [of ?item] pin by metis
  have "processNextDeployItem ?env 0 (example_store ?item) []
          = (Some e, (example_store ?item)\<lparr>metaapp_deploy_queue := []\<rparr>, fs1)"
    using tick_failure [OF example_store_collections(2) dep] count
    by (simp add: maxRetryCount_def)
  then show ?thesis
    by (simp add: GetDeployFileContent_def example_store_collections pebble_Get_list)
qed

lemma example_download_failed:
  "downloadFileFromPinID
     (example_deploy_env \<lparr>r_Code = 1, r_Message = ''file not found'', r_Data = None\<rparr> files)
     (''metafile://'' @ pin_A) dir fs
   = (Inl (''file not found in metafs: '' @ pin_A @ '' (code: 1, message: file not found)''), fs)"
  using example_ref_valid
  by (simp add: downloadFileFromPinID_def downloadFileFromMetafs_def example_deploy_env_def
        TrimPrefix_def HasPrefix_def FormatInt_def digits_of_int.simps char_of_def)

text \<open>
  C6, as the code has it. When the deployment of the first queue item fails, the tick
  returns that error; the item's \<open>try_count\<close> goes up by one and, when it has reached 3,
  the item is removed from the queue, otherwise it stays in place with the new count.
  The tick writes no deploy result of its own: the results are those the deployment
  left. When the deployment failed at the download, the error is the download's and the
  result stored for the record's pin id is \<open>failed\<close> with the download's message.
\<close>

theorem failed_attempt_counts_and_removes:
  assumes "metaapp_deploy_queue db = (k, item) # rest"
    and "deployMetaApp env now item db fs = (Some err, db1, fs1)"
  shows "\<exists>db2. processNextDeployItem env now db fs = (Some err, db2, fs1)
     \<and> metaapp_deploy_queue db2
         = (if sint (q_TryCount item + 1) \<ge> 3 then rest
            else (k, item\<lparr>q_TryCount := q_TryCount item + 1\<rparr>) # rest)
     \<and> metaapp_deploy_file_content db2 = metaapp_deploy_file_content db1
     \<and> (\<forall>metaApp fs' m fs''.
           GetMetaAppByPinID (q_PinID item) db = Inr metaApp \<longrightarrow>
           prepare_deploy_dir env (app_deploy_dir env metaApp) fs = (None, fs') \<longrightarrow>
           isValidMetafilePinID (code_or_content (q_Code item) (q_Content item)) \<longrightarrow>
           downloadFileFromPinID env (code_or_content (q_Code item) (q_Content item))
             (app_deploy_dir env metaApp) fs' = (Inl m, fs'') \<longrightarrow>
             err = ''failed to download file: '' @ m
             \<and> GetDeployFileContent (PinID metaApp) db2
                 = Inr (deploy_content now metaApp item (app_deploy_dir env metaApp)
                          ''failed'' m))"
proof -
  let ?queue = "if sint (q_TryCount item + 1) \<ge> maxRetryCount then rest
                else (k, item\<lparr>q_TryCount := q_TryCount item + 1\<rparr>) # rest"
  let ?db2 = "db1\<lparr>metaapp_deploy_queue := ?queue\<rparr>"
  have tick: "processNextDeployItem env now db fs = (Some err, ?db2, fs1)"
    using assms by (rule tick_failure)
  have queue: "metaapp_deploy_queue ?db2
         = (if sint (q_TryCount item + 1) \<ge> 3 then rest
            else (k, item\<lparr>q_TryCount := q_TryCount item + 1\<rparr>) # rest)"
    by (simp add: maxRetryCount_def)
  have results: "metaapp_deploy_file_content ?db2 = metaapp_deploy_file_content db1"
    by simp
  have download: "err = ''failed to download file: '' @ m
        \<and> GetDeployFileContent (PinID metaApp) ?db2
            = Inr (deploy_content now metaApp item (app_deploy_dir env metaApp) ''failed'' m)"
    if got: "GetMetaAppByPinID (q_PinID item) db = Inr metaApp"
      and prep: "prepare_deploy_dir env (app_deploy_dir env metaApp) fs = (None, fs')"
      and valid: "isValidMetafilePinID (code_or_content (q_Code item) (q_Content item))"
      and down: "downloadFileFromPinID env (code_or_content (q_Code item) (q_Content item))
                   (app_deploy_dir env metaApp) fs' = (Inl m, fs'')"
    for metaApp fs' m fs''
  proof -
    let ?result = "deploy_content now metaApp item (app_deploy_dir env metaApp) ''failed'' m"
    have "deployMetaApp env now item db fs
            = (Some (''failed to download file: '' @ m),
               CreateOrUpdateDeployFileContent ?result db, fs'')"
      using got prep valid down by (rule deployMetaApp_download_failed)
    with assms(2) have err: "err = ''failed to download file: '' @ m"
      and db1: "db1 = CreateOrUpdateDeployFileContent ?result db"
      by simp_all
    have "GetDeployFileContent (PinID metaApp) ?db2 = Inr ?result"
      using GetDeployFileContent_written [of ?result db]
      by (simp add: db1 deploy_content_def GetDeployFileContent_def)
    with err show ?thesis by simp
  qed
  from tick queue results download show ?thesis by blast
qed

theorem failed_attempt_counts_and_removes_witness:
  "metaapp_deploy_queue
     (example_store ((example_queue_item pin_A 1700000000000)\<lparr>q_TryCount := 2\<rparr>))
     = [(queue_key ((example_queue_item pin_A 1700000000000)\<lparr>q_TryCount := 2\<rparr>),
         (example_queue_item pin_A 1700000000000)\<lparr>q_TryCount := 2\<rparr>)]
   \<and> fst (processNextDeployItem
            (example_deploy_env \<lparr>r_Code = 1, r_Message = ''file not found'', r_Data = None\<rparr> [])
            0 (example_store ((example_queue_item pin_A 1700000000000)\<lparr>q_TryCount := 2\<rparr>)) [])
       = Some (''failed to download file: '' @ ''file not found in metafs: '' @ pin_A
               @ '' (code: 1, message: file not found)'')
   \<and> metaapp_deploy_queue
       (fst (snd (processNextDeployItem
          (example_deploy_env \<lparr>r_Code = 1, r_Message = ''file not found'', r_Data = None\<rparr> [])
          0 (example_store ((example_queue_item pin_A 1700000000000)\<lparr>q_TryCount := 2\<rparr>)) [])))
     = []
   \<and> map_sum id d_DeployMessage
       (GetDeployFileContent pin_A
          (fst (snd (processNextDeployItem
             (example_deploy_env \<lparr>r_Code = 1, r_Message = ''file not found'', r_Data = None\<rparr> [])
             0 (example_store ((example_queue_item pin_A 1700000000000)\<lparr>q_TryCount := 2\<rparr>))
             []))))
     = Inr (''file not found in metafs: '' @ pin_A @ '' (code: 1, message: file not found)'')"
proof -
  let ?item = "(example_queue_item pin_A 1700000000000)\<lparr>q_TryCount := 2\<rparr>"
  let ?env = "example_deploy_env \<lparr>r_Code = 1, r_Message = ''file not found'', r_Data = None\<rparr> []"
  let ?app = "example_app pin_A pin_A ''create'' ''/protocols/metaapp''"
  let ?fs1 = "[(''/data/deploy/'' @ pin_A, DirNode), (''/data/deploy'', DirNode), (''/data'', DirNode)]"
  let ?m = "''file not found in metafs: '' @ pin_A @ '' (code: 1, message: file not found)''"
  have fields: "q_PinID ?item = pin_A"
      "code_or_content (q_Code ?item) (q_Content ?item) = ''metafile://'' @ pin_A"
      "sint (q_TryCount ?item + 1) = 3"
    by (simp_all add: example_queue_item_def code_or_content_def)
  have h1: "metaapp_deploy_queue (example_store ?item) = (queue_key ?item, ?item) # []"
    by (simp add: example_store_collections)
  have got: "GetMetaAppByPinID (q_PinID ?item) (example_store ?item) = Inr ?app"
    by (simp only: fields example_store_record)
  have prep: "prepare_deploy_dir ?env (app_deploy_dir ?env ?app) [] = (None, ?fs1)"
    by (simp only: example_dir example_prepare)
  have valid: "isValidMetafilePinID (code_or_content (q_Code ?item) (q_Content ?item))"
    by (simp only: fields example_ref_valid)
  have down: "downloadFileFromPinID ?env (code_or_content (q_Code ?item) (q_Content ?item))
                (app_deploy_dir ?env ?app) ?fs1 = (Inl ?m, ?fs1)"
    by (simp only: fields example_download_failed)
  have h2: "deployMetaApp ?env 0 ?item (example_store ?item) []
              = (Some (''failed to download file: '' @ ?m),
                 CreateOrUpdateDeployFileContent
                   (deploy_content 0 ?app ?item (app_deploy_dir ?env ?app) ''failed'' ?m)
                   (example_store ?item),
                 ?fs1)"
    using got prep valid down by (rule deployMetaApp_download_failed)
  obtain db2 where tick: "processNextDeployItem ?env 0 (example_store ?item) []
                            = (Some (''failed to download file: '' @ ?m), db2, ?fs1)"
    and queue: "metaapp_deploy_queue db2
                  = (if sint (q_TryCount ?item + 1) \<ge> 3 then []
                     else [(queue_key ?item, ?item\<lparr>q_TryCount := q_TryCount ?item + 1\<rparr>)])"
    and result: "GetDeployFileContent (PinID ?app) db2
                   = Inr (deploy_content 0 ?app ?item (app_deploy_dir ?env ?app) ''failed'' ?m)"
    using failed_attempt_counts_and_removes [OF h1 h2] got prep valid down by blast
  have "metaapp_deploy_queue db2 = []"
    using queue fields(3) by simp
  moreover have "map_sum id d_DeployMessage (GetDeployFileContent pin_A db2) = Inr ?m"
    using result by (simp add: example_app_fields deploy_content_def)
  ultimately show ?thesis
    using tick h1 by simp
qed

section \<open>A failed download is recorded at once\<close>

text \<open>
  C10. When the first queue item's record is stored under the item's pin id, the deploy
  directory is ready, the artifact reference is a valid \<open>metafile://\<close> pin id and the
  download fails with a message, the tick returns the download error and the deploy
  result of the pin id is \<open>failed\<close> with that message, whatever the item's \<open>try_count\<close>:
  while \<open>try_count\<close> plus one is still below 3 the item is still in the queue, with
  \<open>try_count\<close> one higher, and only from 3 on it is removed.
\<close>

theorem failed_download_recorded_while_queued:
  assumes "metaapp_deploy_queue db = (k, item) # rest"
    and "GetMetaAppByPinID (q_PinID item) db = Inr metaApp" and "PinID metaApp = q_PinID item"
    and "prepare_deploy_dir env (app_deploy_dir env metaApp) fs = (None, fs1)"
    and "isValidMetafilePinID (code_or_content (q_Code item) (q_Content item))"
    and "downloadFileFromPinID env (code_or_content (q_Code item) (q_Content item))
           (app_deploy_dir env metaApp) fs1 = (Inl m, fs2)"
  shows "\<exists>db2 result. processNextDeployItem env now db fs
             = (Some (''failed to download file: '' @ m), db2, fs2)
     \<and> GetDeployFileContent (q_PinID item) db2 = Inr result
     \<and> d_DeployStatus result = ''failed'' \<and> d_DeployMessage result = m
     \<and> metaapp_deploy_queue db2
         = (if sint (q_TryCount item + 1) \<ge> 3 then rest
            else (k, item\<lparr>q_TryCount := q_TryCount item + 1\<rparr>) # rest)
     \<and> (sint (q_TryCount item + 1) < 3 \<longrightarrow>
          GetDeployQueueItem (q_PinID item) db2 = Inr (item\<lparr>q_TryCount := q_TryCount item + 1\<rparr>))"
proof -
  let ?result = "deploy_content now metaApp item (app_deploy_dir env metaApp) ''failed'' m"
  let ?db1 = "CreateOrUpdateDeployFileContent ?result db"
  let ?queue = "if sint (q_TryCount item + 1) \<ge> maxRetryCount then rest
                else (k, item\<lparr>q_TryCount := q_TryCount item + 1\<rparr>) # rest"
  let ?db2 = "?db1\<lparr>metaapp_deploy_queue := ?queue\<rparr>"
  have dep: "deployMetaApp env now item db fs
               = (Some (''failed to download file: '' @ m), ?db1, fs2)"
    using assms(2,4,5,6) by (rule deployMetaApp_download_failed)
  have tick: "processNextDeployItem env now db fs
                = (Some (''failed to download file: '' @ m), ?db2, fs2)"
    using assms(1) dep by (rule tick_failure)
  have res: "GetDeployFileContent (q_PinID item) ?db2 = Inr ?result"
    using GetDeployFileContent_written [of ?result db] assms(3)
    by (simp add: deploy_content_def GetDeployFileContent_def)
  have status: "d_DeployStatus ?result = ''failed''" "d_DeployMessage ?result = m"
    by (simp_all add: deploy_content_def)
  have queue: "metaapp_deploy_queue ?db2
         = (if sint (q_TryCount item + 1) \<ge> 3 then rest
            else (k, item\<lparr>q_TryCount := q_TryCount item + 1\<rparr>) # rest)"
    by (simp add: maxRetryCount_def)
  have queued: "sint (q_TryCount item + 1) < 3 \<longrightarrow>
          GetDeployQueueItem (q_PinID item) ?db2 = Inr (item\<lparr>q_TryCount := q_TryCount item + 1\<rparr>)"
    by (simp add: GetDeployQueueItem_def maxRetryCount_def)
  from tick res status queue queued show ?thesis by blast
qed

theorem failed_download_recorded_while_queued_witness:
  "sint (q_TryCount (example_queue_item pin_A 1700000000000) + 1) < 3
   \<and> fst (processNextDeployItem
            (example_deploy_env \<lparr>r_Code = 1, r_Message = ''file not found'', r_Data = None\<rparr> [])
            0 (example_store (example_queue_item pin_A 1700000000000)) [])
       = Some (''failed to download file: '' @ ''file not found in metafs: '' @ pin_A
               @ '' (code: 1, message: file not found)'')
   \<and> map_sum id d_DeployStatus
       (GetDeployFileContent pin_A
          (fst (snd (processNextDeployItem
             (example_deploy_env \<lparr>r_Code = 1, r_Message = ''file not found'', r_Data = None\<rparr> [])
             0 (example_store (example_queue_item pin_A 1700000000000)) []))))
     = Inr ''failed''
   \<and> GetDeployQueueItem pin_A
       (fst (snd (processNextDeployItem
          (example_deploy_env \<lparr>r_Code = 1, r_Message = ''file not found'', r_Data = None\<rparr> [])
          0 (example_store (example_queue_item pin_A 1700000000000)) [])))
     = Inr ((example_queue_item pin_A 1700000000000)\<lparr>q_TryCount := 1\<rparr>)"
proof -
  let ?item = "example_queue_item pin_A 1700000000000"
  let ?env = "example_deploy_env \<lparr>r_Code = 1, r_Message = ''file not found'', r_Data = None\<rparr> []"
  let ?app = "example_app pin_A pin_A ''create'' ''/protocols/metaapp''"
  let ?fs1 = "[(''/data/deploy/'' @ pin_A, DirNode), (''/data/deploy'', DirNode), (''/data'', DirNode)]"
  let ?m = "''file not found in metafs: '' @ pin_A @ '' (code: 1, message: file not found)''"
  have h1: "metaapp_deploy_queue (example_store ?item) = (queue_key ?item, ?item) # []"
    by (simp add: example_store_collections)
  have h2: "GetMetaAppByPinID (q_PinID ?item) (example_store ?item) = Inr ?app"
    by (simp add: example_item_fields example_store_record)
  have h3: "PinID ?app = q_PinID ?item"
    by (simp add: example_item_fields example_app_fields)
  have h4: "prepare_deploy_dir ?env (app_deploy_dir ?env ?app) [] = (None, ?fs1)"
    by (simp only: example_dir example_prepare)
  have h5: "isValidMetafilePinID (code_or_content (q_Code ?item) (q_Content ?item))"
    by (simp only: example_item_fields example_ref_valid)
  have h6: "downloadFileFromPinID ?env (code_or_content (q_Code ?item) (q_Content ?item))
              (app_deploy_dir ?env ?app) ?fs1 = (Inl ?m, ?fs1)"
    by (simp only: example_item_fields example_download_failed)
  have h7: "sint (q_TryCount ?item + 1) < 3"
    by (simp add: example_item_fields)
  obtain db2 result where tick: "processNextDeployItem ?env 0 (example_store ?item) []
                            = (Some (''failed to download file: '' @ ?m), db2, ?fs1)"
    and res: "GetDeployFileContent (q_PinID ?item) db2 = Inr result"
      "d_DeployStatus result = ''failed''"
    and queued: "sint (q_TryCount ?item + 1) < 3 \<longrightarrow>
          GetDeployQueueItem (q_PinID ?item) db2 = Inr (?item\<lparr>q_TryCount := q_TryCount ?item + 1\<rparr>)"
    using failed_download_recorded_while_queued [OF h1 h2 h3 h4 h5 h6, of 0] by blast
  have "map_sum id d_DeployStatus (GetDeployFileContent pin_A db2) = Inr ''failed''"
    using res by (simp add: example_item_fields)
  moreover have "GetDeployQueueItem pin_A db2 = Inr (?item\<lparr>q_TryCount := 1\<rparr>)"
    using queued h7 by (simp add: example_item_fields)
  ultimately show ?thesis
    using tick h7 by simp
qed

section \<open>A zip entry that escapes the deploy root\<close>

lemma unzip_entries_escape:
  assumes "\<not> HasPrefix (filepath_Join [targetDir, z_Name f]) (filepath_Clean targetDir @ ''/'')"
  shows "\<exists>e. unzip_entries env targetDir (before @ f # after) fs
               = (Some e, snd (unzip_entries env targetDir before fs))"
proof (induction before arbitrary: fs)
  case Nil
  with assms show ?case by (simp add: Let_def)
next
  case (Cons g before)
  show ?case
    using Cons.IH by (auto simp: Let_def split: sum.splits option.splits)
qed

lemma unzipFile_escape:
  assumes "fs_lookup fs zipPath = Some (FileNode bytes)"
    and "zip_OpenReader env bytes = Inr (before @ f # after)"
    and "\<not> HasPrefix (filepath_Join [targetDir, z_Name f]) (filepath_Clean targetDir @ ''/'')"
  shows "\<exists>e. unzipFile env zipPath targetDir fs
               = (Some e, snd (unzip_entries env targetDir before fs))"
  using assms(1,2) unzip_entries_escape [OF assms(3), of env before after fs]
  by (simp add: unzipFile_def)

lemma deployMetaApp_downloaded:
  assumes "GetMetaAppByPinID (q_PinID item) db = Inr metaApp"
    and "prepare_deploy_dir env (app_deploy_dir env metaApp) fs = (None, fs1)"
    and "isValidMetafilePinID (code_or_content (q_Code item) (q_Content item))"
    and "downloadFileFromPinID env (code_or_content (q_Code item) (q_Content item))
           (app_deploy_dir env metaApp) fs1 = (Inr filePath, fs2)"
  shows "deployMetaApp env now item db fs
           = (None,
              CreateOrUpdateDeployFileContent
                (deploy_content now metaApp item (app_deploy_dir env metaApp) ''completed'' []) db,
              if HasSuffix (ToLower filePath) ''.zip''
              then (case unzipFile env filePath (app_deploy_dir env metaApp) fs2 of
                      (Some e, fs') \<Rightarrow> fs'
                    | (None, fs') \<Rightarrow> os_Remove filePath fs')
              else fs2)"
proof -
  have "code_or_content (q_Code item) (q_Content item) \<noteq> []"
    using assms(3) by (auto simp: isValidMetafilePinID_def HasPrefix_def)
  with assms show ?thesis
    by (simp add: deployMetaApp_def Let_def)
qed

text \<open>
  C5, as the code has it. When the download has delivered a file whose name ends in
  \<open>.zip\<close> and the archive has an entry whose joined path is not under the deploy root,
  \<open>unzipFile\<close> stops at that entry with an error: the disk is what extracting the
  entries before it has made of it, so neither that entry nor a later one is written and
  the zip file stays. \<open>deployMetaApp\<close> goes on without the archive's remaining content:
  it returns no error and writes the \<open>completed\<close> result.
\<close>

theorem escaping_zip_entry_stops_extraction:
  assumes "GetMetaAppByPinID (q_PinID item) db = Inr metaApp"
    and "prepare_deploy_dir env (app_deploy_dir env metaApp) fs = (None, fs1)"
    and "isValidMetafilePinID (code_or_content (q_Code item) (q_Content item))"
    and "downloadFileFromPinID env (code_or_content (q_Code item) (q_Content item))
           (app_deploy_dir env metaApp) fs1 = (Inr filePath, fs2)"
    and "HasSuffix (ToLower filePath) ''.zip''"
    and "fs_lookup fs2 filePath = Some (FileNode bytes)"
    and "zip_OpenReader env bytes = Inr (before @ f # after)"
    and "\<not> HasPrefix (filepath_Join [app_deploy_dir env metaApp, z_Name f])
             (filepath_Clean (app_deploy_dir env metaApp) @ ''/'')"
  shows "(\<exists>e. unzipFile env filePath (app_deploy_dir env metaApp) fs2
                 = (Some e, snd (unzip_entries env (app_deploy_dir env metaApp) before fs2)))
       \<and> deployMetaApp env now item db fs
           = (None,
              CreateOrUpdateDeployFileContent
                (deploy_content now metaApp item (app_deploy_dir env metaApp) ''completed'' []) db,
              snd (unzip_entries env (app_deploy_dir env metaApp) before fs2))"
proof -
  obtain e where unzip: "unzipFile env filePath (app_deploy_dir env metaApp) fs2
                 = (Some e, snd (unzip_entries env (app_deploy_dir env metaApp) before fs2))"
    using unzipFile_escape [OF assms(6,7,8)] by blast
  show ?thesis
    using deployMetaApp_downloaded [OF assms(1-4), of now] assms(5) unzip by simp
qed

lemma example_download_ok:
  "downloadFileFromPinID (example_deploy_env example_info files) (''metafile://'' @ pin_A)
     (''/data/deploy/'' @ pin_A)
     [(''/data/deploy/'' @ pin_A, DirNode), (''/data/deploy'', DirNode), (''/data'', DirNode)]
   = (Inr (''/data/deploy/'' @ pin_A @ ''/app.zip''),
      [(''/data/deploy/'' @ pin_A @ ''/app.zip'', FileNode [80, 75, 3, 4]),
       (''/data/deploy/'' @ pin_A, DirNode), (''/data/deploy'', DirNode), (''/data'', DirNode)])"
  by (simp add: downloadFileFromPinID_def downloadFileFromMetafs_def example_deploy_env_def
        example_info_def download_file_name_def ToLower_def lower_char_def TrimPrefix_def
        TrimSuffix_def HasPrefix_def HasSuffix_def isValidMetafilePinID_def match_pin_id_def
        is_lower_hex_def is_digit_def filepath_Join_def filepath_Clean_def filepath_Dir_def
        create_file_def is_dir_def fs_lookup_def fs_write_def Let_def pin_A_def)

lemma example_unzip_first:
  "unzip_entries (example_deploy_env info files) (''/data/deploy/'' @ pin_A)
     [example_entry ''index.html'']
     [(''/data/deploy/'' @ pin_A @ ''/app.zip'', FileNode [80, 75, 3, 4]),
      (''/data/deploy/'' @ pin_A, DirNode), (''/data/deploy'', DirNode), (''/data'', DirNode)]
   = (None,
      [(''/data/deploy/'' @ pin_A @ ''/index.html'', FileNode [104, 105]),
       (''/data/deploy/'' @ pin_A @ ''/app.zip'', FileNode [80, 75, 3, 4]),
       (''/data/deploy/'' @ pin_A, DirNode), (''/data/deploy'', DirNode), (''/data'', DirNode)])"
  by (simp add: example_deploy_env_def example_entry_def HasPrefix_def filepath_Join_def
        filepath_Clean_def filepath_Dir_def os_MkdirAll_def create_file_def is_dir_def
        fs_lookup_def fs_write_def Let_def pin_A_def)

lemma example_escape:
  "\<not> HasPrefix (filepath_Join [''/data/deploy/'' @ pin_A, z_Name (example_entry ''../evil'')])
       (filepath_Clean (''/data/deploy/'' @ pin_A) @ ''/'')"
  by (simp add: example_entry_def HasPrefix_def filepath_Join_def filepath_Clean_def pin_A_def)

lemma example_zip_suffix: "HasSuffix (ToLower (''/data/deploy/'' @ pin_A @ ''/app.zip'')) ''.zip''"
  by (simp add: HasSuffix_def ToLower_def lower_char_def pin_A_def)

lemma example_zip_read:
  "fs_lookup
     [(''/data/deploy/'' @ pin_A @ ''/app.zip'', FileNode [80, 75, 3, 4]),
      (''/data/deploy/'' @ pin_A, DirNode), (''/data/deploy'', DirNode), (''/data'', DirNode)]
     (''/data/deploy/'' @ pin_A @ ''/app.zip'') = Some (FileNode [80, 75, 3, 4])"
  "zip_OpenReader (example_deploy_env info files) bytes = Inr files"
  by (simp_all add: fs_lookup_def example_deploy_env_def)

theorem escaping_zip_entry_stops_extraction_witness:
  "\<not> HasPrefix (filepath_Join [''/data/deploy/'' @ pin_A, z_Name (example_entry ''../evil'')])
       (filepath_Clean (''/data/deploy/'' @ pin_A) @ ''/'')
   \<and> deployMetaApp
       (example_deploy_env example_info [example_entry ''index.html'', example_entry ''../evil''])
       0 (example_queue_item pin_A 1700000000000)
       (example_store (example_queue_item pin_A 1700000000000)) []
     = (None,
        CreateOrUpdateDeployFileContent
          (deploy_content 0 (example_app pin_A pin_A ''create'' ''/protocols/metaapp'')
             (example_queue_item pin_A 1700000000000) (''/data/deploy/'' @ pin_A) ''completed'' [])
          (example_store (example_queue_item pin_A 1700000000000)),
        [(''/data/deploy/'' @ pin_A @ ''/index.html'', FileNode [104, 105]),
         (''/data/deploy/'' @ pin_A @ ''/app.zip'', FileNode [80, 75, 3, 4]),
         (''/data/deploy/'' @ pin_A, DirNode), (''/data/deploy'', DirNode), (''/data'', DirNode)])"
proof -
  let ?item = "example_queue_item pin_A 1700000000000"
  let ?env = "example_deploy_env example_info [example_entry ''index.html'', example_entry ''../evil'']"
  let ?app = "example_app pin_A pin_A ''create'' ''/protocols/metaapp''"
  let ?fs1 = "[(''/data/deploy/'' @ pin_A, DirNode), (''/data/deploy'', DirNode), (''/data'', DirNode)]"
  let ?zip = "''/data/deploy/'' @ pin_A @ ''/app.zip''"
  let ?fs2 = "(?zip, FileNode [80, 75, 3, 4]) # ?fs1"
  have h1: "GetMetaAppByPinID (q_PinID ?item) (example_store ?item) = Inr ?app"
    by (simp add: example_item_fields example_store_record)
  have h2: "prepare_deploy_dir ?env (app_deploy_dir ?env ?app) [] = (None, ?fs1)"
    by (simp only: example_dir example_prepare)
  have h3: "isValidMetafilePinID (code_or_content (q_Code ?item) (q_Content ?item))"
    by (simp only: example_item_fields example_ref_valid)
  have h4: "downloadFileFromPinID ?env (code_or_content (q_Code ?item) (q_Content ?item))
              (app_deploy_dir ?env ?app) ?fs1 = (Inr ?zip, ?fs2)"
    by (simp only: example_item_fields example_dir example_download_ok)
  have h5: "HasSuffix (ToLower ?zip) ''.zip''"
    by (rule example_zip_suffix)
  have h6: "fs_lookup ?fs2 ?zip = Some (FileNode [80, 75, 3, 4])"
    by (rule example_zip_read)
  have h7: "zip_OpenReader ?env [80, 75, 3, 4]
              = Inr ([example_entry ''index.html''] @ example_entry ''../evil'' # [])"
    by (simp add: example_zip_read)
  have h8: "\<not> HasPrefix (filepath_Join [app_deploy_dir ?env ?app, z_Name (example_entry ''../evil'')])
                (filepath_Clean (app_deploy_dir ?env ?app) @ ''/'')"
    by (simp only: example_dir example_escape not_False_eq_True)
  have "deployMetaApp ?env 0 ?item (example_store ?item) []
          = (None,
             CreateOrUpdateDeployFileContent
               (deploy_content 0 ?app ?item (app_deploy_dir ?env ?app) ''completed'' [])
               (example_store ?item),
             snd (unzip_entries ?env (app_deploy_dir ?env ?app) [example_entry ''index.html''] ?fs2))"
    using escaping_zip_entry_stops_extraction [OF h1 h2 h3 h4 h5 h6 h7 h8, of 0] by blast
  then show ?thesis
    using example_escape by (simp only: example_dir example_unzip_first snd_conv simp_thms)
qed

text \<open>
  C5. The specification: a zip with an entry such as \<open>../evil\<close> is refused, no file of the
  archive is written and no \<open>completed\<close> result is recorded. On the code: with the
  entries \<open>index.html\<close> and \<open>../evil\<close>, in that order, the deployment returns no error,
  the result recorded for the pin id is \<open>completed\<close>, and \<open>index.html\<close> is on disk under
  the deploy root (\<open>../evil\<close> is not written).
\<close>

theorem escaping_zip_is_deployed_as_completed:
  "fst (deployMetaApp
          (example_deploy_env example_info [example_entry ''index.html'', example_entry ''../evil''])
          0 (example_queue_item pin_A 1700000000000)
          (example_store (example_queue_item pin_A 1700000000000)) []) = None
   \<and> map_sum id d_DeployStatus
       (GetDeployFileContent pin_A
          (fst (snd (deployMetaApp
             (example_deploy_env example_info [example_entry ''index.html'', example_entry ''../evil''])
             0 (example_queue_item pin_A 1700000000000)
             (example_store (example_queue_item pin_A 1700000000000)) []))))
     = Inr ''completed''
   \<and> fs_lookup
       (snd (snd (deployMetaApp
          (example_deploy_env example_info [example_entry ''index.html'', example_entry ''../evil''])
          0 (example_queue_item pin_A 1700000000000)
          (example_store (example_queue_item pin_A 1700000000000)) [])))
       (''/data/deploy/'' @ pin_A @ ''/index.html'') = Some (FileNode [104, 105])
   \<and> fs_lookup
       (snd (snd (deployMetaApp
          (example_deploy_env example_info [example_entry ''index.html'', example_entry ''../evil''])
          0 (example_queue_item pin_A 1700000000000)
          (example_store (example_queue_item pin_A 1700000000000)) [])))
       ''/data/deploy/evil'' = None"
proof -
  let ?item = "example_queue_item pin_A 1700000000000"
  let ?env = "example_deploy_env example_info [example_entry ''index.html'', example_entry ''../evil'']"
  let ?app = "example_app pin_A pin_A ''create'' ''/protocols/metaapp''"
  let ?fs1 = "[(''/data/deploy/'' @ pin_A, DirNode), (''/data/deploy'', DirNode), (''/data'', DirNode)]"
  let ?zip = "''/data/deploy/'' @ pin_A @ ''/app.zip''"
  let ?fs2 = "(?zip, FileNode [80, 75, 3, 4]) # ?fs1"
  let ?fs3 = "(''/data/deploy/'' @ pin_A @ ''/index.html'', FileNode [104, 105]) # ?fs2"
  let ?result = "deploy_content 0 ?app ?item (''/data/deploy/'' @ pin_A) ''completed'' []"
  have h1: "GetMetaAppByPinID (q_PinID ?item) (example_store ?item) = Inr ?app"
    by (simp add: example_item_fields example_store_record)
  have h2: "prepare_deploy_dir ?env (app_deploy_dir ?env ?app) [] = (None, ?fs1)"
    by (simp only: example_dir example_prepare)
  have h3: "isValidMetafilePinID (code_or_content (q_Code ?item) (q_Content ?item))"
    by (simp only: example_item_fields example_ref_valid)
  have h4: "downloadFileFromPinID ?env (code_or_content (q_Code ?item) (q_Content ?item))
              (app_deploy_dir ?env ?app) ?fs1 = (Inr ?zip, ?fs2)"
    by (simp only: example_item_fields example_dir example_download_ok)
  have h7: "zip_OpenReader ?env [80, 75, 3, 4]
              = Inr ([example_entry ''index.html''] @ example_entry ''../evil'' # [])"
    by (simp add: example_zip_read)
  obtain e where "unzipFile ?env ?zip (''/data/deploy/'' @ pin_A) ?fs2
                    = (Some e, snd (unzip_entries ?env (''/data/deploy/'' @ pin_A)
                                      [example_entry ''index.html''] ?fs2))"
    using unzipFile_escape [OF example_zip_read(1) h7 example_escape] by blast
  then have unzip: "unzipFile ?env ?zip (''/data/deploy/'' @ pin_A) ?fs2 = (Some e, ?fs3)"
    by (simp only: example_unzip_first snd_conv)
  have dep: "deployMetaApp ?env 0 ?item (example_store ?item) []
               = (None, CreateOrUpdateDeployFileContent ?result (example_store ?item), ?fs3)"
    using deployMetaApp_downloaded [OF h1 h2 h3 h4, of 0] example_zip_suffix unzip
    by (simp only: example_dir if_True prod.case option.case)
  have pin: "d_PinID ?result = pin_A" and status: "d_DeployStatus ?result = ''completed''"
    by (simp_all add: deploy_content_def example_app_fields)
  have res: "GetDeployFileContent pin_A (CreateOrUpdateDeployFileContent ?result (example_store ?item))
               = Inr ?result"
    using GetDeployFileContent_written [of ?result "example_store ?item"] pin by simp
  have disk: "fs_lookup ?fs3 (''/data/deploy/'' @ pin_A @ ''/index.html'') = Some (FileNode [104, 105])"
      "fs_lookup ?fs3 ''/data/deploy/evil'' = None"
    by (simp_all add: fs_lookup_def pin_A_def)
  show ?thesis
    unfolding dep fst_conv snd_conv res using status disk by simp
qed

section \<open>The transaction hash\<close>

text \<open>The reversal loop reverses: after \<open>i\<close> rounds the outer \<open>i\<close> bytes on each side are swapped.\<close>

lemma swap_loop_invariant:
  assumes "length ys = length xs" and "i \<le> length xs div 2"
    and "\<forall>j < length xs. ys ! j = (if j < i \<or> length xs - i \<le> j
                                        then xs ! (length xs - 1 - j) else xs ! j)"
  shows "swap_loop i ys = rev xs"
  using assms
proof (induction i ys rule: swap_loop.induct)
  case (1 i ys)
  let ?n = "length xs"
  show ?case
  proof (cases "i < length ys div 2")
    case True
    let ?ys' = "(ys[length ys - 1 - i := ys ! i])[i := ys ! (length ys - 1 - i)]"
    have len: "length ?ys' = ?n"
      using "1.prems"(1) by simp
    have bound: "i + 1 \<le> ?n div 2"
      using True "1.prems"(1) by simp
    have inv: "\<forall>j < ?n. ?ys' ! j = (if j < i + 1 \<or> ?n - (i + 1) \<le> j
                                        then xs ! (?n - 1 - j) else xs ! j)"
    proof (intro allI impI)
      fix j assume j: "j < ?n"
      have i2: "2 * i + 1 < ?n"
        using True "1.prems"(1) by arith
      have inner: "?n - 1 - i < ?n" "\<not> (?n - 1 - i < i \<or> ?n - i \<le> ?n - 1 - i)"
          "i < ?n" "\<not> (i < i \<or> ?n - i \<le> i)" "?n - 1 - (?n - 1 - i) = i" "i \<noteq> ?n - 1 - i"
        using i2 by arith+
      have right: "ys ! (?n - 1 - i) = xs ! (?n - 1 - i)"
        using "1.prems"(3) [rule_format, OF inner(1)] inner(2) by simp
      have left: "ys ! i = xs ! i"
        using "1.prems"(3) [rule_format, OF inner(3)] inner(4) by simp
      consider "j = i" | "j = ?n - 1 - i" | "j \<noteq> i" "j \<noteq> ?n - 1 - i"
        by blast
      then show "?ys' ! j = (if j < i + 1 \<or> ?n - (i + 1) \<le> j
                              then xs ! (?n - 1 - j) else xs ! j)"
      proof cases
        case 1
        have "?ys' ! j = ys ! (?n - 1 - i)"
          using 1 inner(3) "1.prems"(1) by simp
        with right 1 show ?thesis by simp
      next
        case 2
        have "?ys' ! j = ys ! i"
          using 2 inner(1,6) "1.prems"(1) by simp
        with left 2 inner(5) show ?thesis by simp
      next
        case 3
        have same: "?ys' ! j = ys ! j"
          using 3 "1.prems"(1) by simp
        have cond: "(j < i + 1 \<or> ?n - (i + 1) \<le> j) = (j < i \<or> ?n - i \<le> j)"
          using 3 j by arith
        show ?thesis
          using "1.prems"(3) [rule_format, OF j] by (simp only: same cond)
      qed
    qed
    have "swap_loop (i + 1) ?ys' = rev xs"
      using True len bound inv by (intro "1.IH") (simp_all add: Let_def)
    then show ?thesis
      using True by (subst swap_loop.simps) (simp add: Let_def)
  next
    case False
    with "1.prems"(1,2) have i: "i = ?n div 2" by simp
    have "ys = rev xs"
    proof (rule nth_equalityI)
      show "length ys = length (rev xs)"
        using "1.prems"(1) by simp
    next
      fix j assume "j < length ys"
      then have j: "j < ?n" using "1.prems"(1) by simp
      have mid: "\<not> (j < i \<or> ?n - i \<le> j) \<Longrightarrow> ?n - 1 - j = j"
        using i j by arith
      show "ys ! j = rev xs ! j"
        using "1.prems"(3) j mid by (auto simp: rev_nth)
    qed
    then show ?thesis
      using False by (subst swap_loop.simps) simp
  qed
qed

lemma swap_loop_rev: "swap_loop 0 xs = rev xs"
  by (rule swap_loop_invariant) simp_all

text \<open>The two loops concatenate what each input and each output contributes.\<close>

lemma inputs_loop_concat:
  "inputs_loop env ins (a, b)
     = (a @ concat (map (\<lambda>i. PreviousOutPoint_Hash i @ PutUint32 (PreviousOutPoint_Index i)
                               @ PutUint32 (Sequence i)) ins),
        b @ concat (map (\<lambda>i. tool_SHA256 env (SignatureScript i)) ins))"
  by (induction ins arbitrary: a b) simp_all

lemma outputs_loop_concat:
  "outputs_loop env outs a
     = a @ concat (map (\<lambda>out. Uint64ToLittleEndianBytes (Value out)
                               @ tool_SHA256 env (PkScript out)) outs)"
  by (induction outs arbitrary: a) simp_all

lemma getTxNewRawByte_spec: "getTxNewRawByte env tx = spec_preimage env tx"
  by (simp add: getTxNewRawByte_def spec_preimage_def inputs_loop_concat outputs_loop_concat
        Uint32ToLittleEndianBytes_def)

lemma version_widened: "((ucast (v :: u32) :: u64) \<ge> 10) = (v \<ge> 10)"
proof -
  have "uint (ucast v :: u64) = uint v"
    by (rule uint_up_ucast) (simp add: is_up)
  then show ?thesis
    by (simp add: word_le_def)
qed

text \<open>
  C3. For raw bytes of length at least four: when their first four bytes, read as a
  little-endian 32-bit number, are at least 10 and the bytes parse as a transaction,
  \<open>GetMvcTxhash\<close> returns the hex form of the reversed double hash of the pre-image
  laid out as the specification says; when the number is below 10, it returns the hex
  form of the reversed double hash of the raw bytes themselves.
\<close>

theorem GetMvcTxhash_by_version:
  assumes "4 \<le> length rawTxByte"
  shows "(10 \<le> Uint32 (take 4 rawTxByte) \<longrightarrow> Deserialize env rawTxByte = Inr tx \<longrightarrow>
            GetMvcTxhash env rawTxByte
              = EncodeToString (rev (tool_DoubleSHA256 env (spec_preimage env tx))))
       \<and> (Uint32 (take 4 rawTxByte) < 10 \<longrightarrow>
            GetMvcTxhash env rawTxByte = EncodeToString (rev (tool_DoubleSHA256 env rawTxByte)))"
proof (intro conjI impI)
  have ne: "rawTxByte \<noteq> []"
    using assms by auto
  {
    assume "10 \<le> Uint32 (take 4 rawTxByte)" and "Deserialize env rawTxByte = Inr tx"
    then show "GetMvcTxhash env rawTxByte
                 = EncodeToString (rev (tool_DoubleSHA256 env (spec_preimage env tx)))"
      using assms ne
      by (simp add: GetMvcTxhash_def Let_def version_widened GetTxNewhash_def
            getTxNewRawByte_spec swap_loop_rev)
  next
    assume "Uint32 (take 4 rawTxByte) < 10"
    then have "\<not> 10 \<le> Uint32 (take 4 rawTxByte)"
      by simp
    then show "GetMvcTxhash env rawTxByte = EncodeToString (rev (tool_DoubleSHA256 env rawTxByte))"
      using assms ne by (simp add: GetMvcTxhash_def Let_def version_widened swap_loop_rev)
  }
qed

theorem GetMvcTxhash_by_version_witness:
  "(4::nat) \<le> length [10 :: byte, 0, 0, 0, 1, 0, 0, 0, 0, 0, 0, 0]
   \<and> 10 \<le> Uint32 (take 4 [10 :: byte, 0, 0, 0, 1, 0, 0, 0, 0, 0, 0, 0])
   \<and> Deserialize example_hash_env [10, 0, 0, 0, 1, 0, 0, 0, 0, 0, 0, 0] = Inr example_tx
   \<and> GetMvcTxhash example_hash_env [10, 0, 0, 0, 1, 0, 0, 0, 0, 0, 0, 0]
       = EncodeToString (rev (tool_DoubleSHA256 example_hash_env
                                (spec_preimage example_hash_env example_tx)))
   \<and> Uint32 (take 4 [2 :: byte, 0, 0, 0, 1, 0, 0, 0, 0, 0, 0, 0]) < 10
   \<and> GetMvcTxhash example_hash_env [2, 0, 0, 0, 1, 0, 0, 0, 0, 0, 0, 0]
       = EncodeToString (rev (tool_DoubleSHA256 example_hash_env
                                [2, 0, 0, 0, 1, 0, 0, 0, 0, 0, 0, 0]))
   \<and> GetMvcTxhash example_hash_env [2, 0, 0, 0, 1, 0, 0, 0, 0, 0, 0, 0] = ''00000002''"
proof -
  let ?new = "[10 :: byte, 0, 0, 0, 1, 0, 0, 0, 0, 0, 0, 0]"
  let ?old = "[2 :: byte, 0, 0, 0, 1, 0, 0, 0, 0, 0, 0, 0]"
  have len: "(4::nat) \<le> length ?new" "(4::nat) \<le> length ?old"
    by simp_all
  have v10: "10 \<le> Uint32 (take 4 ?new)" and v2: "Uint32 (take 4 ?old) < 10"
    by (simp_all add: Uint32_def)
  have parsed: "Deserialize example_hash_env ?new = Inr example_tx"
    by (simp add: example_hash_env_def)
  have hex: "EncodeToString (rev (tool_DoubleSHA256 example_hash_env ?old)) = ''00000002''"
    by (simp add: example_hash_env_def EncodeToString_def hex_digit_def)
  show ?thesis
    using GetMvcTxhash_by_version [OF len(1), of example_hash_env example_tx]
      GetMvcTxhash_by_version [OF len(2), of example_hash_env example_tx]
      len v10 v2 parsed hex
    by simp
qed

end
